theory Spec2Isabelle
  imports Main
begin

section \<open>Data model of the aiProvider slice\<close>

text \<open>
  Modelled from the spec: the type declarations that
  \<^verbatim>\<open>src/store/aiInfra/slices/aiProvider/action.ts\<close> imports
  (\<^verbatim>\<open>@/types/aiProvider\<close>, \<^verbatim>\<open>@/types/aiModel\<close> and the store type of
  \<^verbatim>\<open>@/store/aiInfra/store\<close>) are not among the sources. The records of this section
  hold the fields that the slice \<^verbatim>\<open>createAiProviderSlice\<close> reads or writes, with
  the optional ones as \<open>option\<close>. The values it passes through without reading them
  (list items, detail items, the runtime configuration, the bodies of the update calls,
  the sort map, the other fields of the create parameters) are values of the type
  parameter \<open>'v\<close>.
\<close>

datatype AiProviderSourceEnum = Builtin | Custom

record 'v CreateAiProviderParams =
  cp_id :: string
  cp_source :: AiProviderSourceEnum
  cp_fields :: 'v

text \<open>
  The keys handed to \<^verbatim>\<open>mutate\<close>: the plain enum member for the list and the
  runtime state, the pair of the enum member and \<^verbatim>\<open>get().activeAiProvider\<close> (which
  may be undefined) for the detail item.
\<close>

datatype AiProviderSwrKey =
  FetchAiProviderItem "string option"
| FetchAiProviderList
| FetchAiProviderRuntimeState

record EnabledProvider =
  provider_id :: string
  provider_name :: "string option"

record EnabledAiModel =
  model_abilities :: "(string \<rightharpoonup> bool) option"
  model_contextWindowTokens :: "int option"
  model_displayName :: "string option"
  model_id :: string
  model_providerId :: string
  model_type :: string

record 'v AiProviderInitState =
  init_enabledAiModels :: "EnabledAiModel list"
  init_enabledAiProviders :: "EnabledProvider list"
  init_runtimeConfig :: 'v

text \<open>The entries of \<^verbatim>\<open>enabledChatModelList\<close>: a node per provider, a child per model.\<close>

record ChatModelItem =
  item_abilities :: "string \<rightharpoonup> bool"
  item_contextWindowTokens :: "int option"
  item_displayName :: string
  item_id :: string

record ChatModelNode =
  node_children :: "ChatModelItem list"
  node_id :: string
  node_name :: string

text \<open>The fields of the store that the slice reads or sets; an unset field is \<open>None\<close>.\<close>

record 'v store =
  activeAiProvider :: "string option"
  aiProviderDetail :: "'v option"
  aiProviderList :: "'v list"
  aiProviderLoadingIds :: "string list"
  aiProviderRuntimeConfig :: "'v option"
  enabledAiModels :: "EnabledAiModel list option"
  enabledAiProviders :: "EnabledProvider list option"
  enabledChatModelList :: "ChatModelNode list option"
  initAiProviderList :: bool

section \<open>Effects\<close>

text \<open>The calls of \<^verbatim>\<open>aiProviderService\<close> that write to the remote service.\<close>

datatype 'v gateway_call =
  Service_createAiProvider "'v CreateAiProviderParams"
| Service_deleteAiProvider string
| Service_toggleProviderEnabled string bool
| Service_updateAiProvider string 'v
| Service_updateAiProviderConfig string 'v
| Service_updateAiProviderOrder "'v list"

text \<open>
  What an operation does that is visible outside it, in order: a call of the service, a
  call of \<^verbatim>\<open>mutate\<close> with a key, a call of the store's \<^verbatim>\<open>set\<close> with its action
  name.
\<close>

datatype 'v event =
  Gateway "'v gateway_call"
| Mutate AiProviderSwrKey
| StoreSet string

datatype error = GatewayError | RevalidateError

text \<open>
  Modelled from the spec: the remote gateway (\<^verbatim>\<open>aiProviderService\<close>) and the cache
  store (\<^verbatim>\<open>useClientDataSWR\<close>, and \<^verbatim>\<open>mutate\<close> of swr) are not among the sources.
  Each call of the gateway resolves or fails. A call of \<^verbatim>\<open>mutate\<close> settles in one of
  three ways: the promise rejects; it resolves and no \<^verbatim>\<open>onSuccess\<close> runs (no hook is
  bound to the key, or the fetch failed); it resolves and the \<^verbatim>\<open>onSuccess\<close> of the
  hook bound to the key has run on the fetched data.
\<close>

datatype 'a revalidation = Reject | NoData | Data 'a

text \<open>
  The gateway and the cache are a parameter of every action: each answer may depend on
  everything the slice has done so far.
\<close>

record 'v world =
  gateway :: "'v event list \<Rightarrow> 'v gateway_call \<Rightarrow> bool"
  fetchItem :: "'v event list \<Rightarrow> string option \<Rightarrow> 'v option revalidation"
  fetchList :: "'v event list \<Rightarrow> 'v list revalidation"
  fetchRuntimeState :: "'v event list \<Rightarrow> 'v AiProviderInitState option revalidation"

record 'v ctx =
  store :: "'v store"
  trace :: "'v event list"

text \<open>
  A \<^verbatim>\<open>Promise<void>\<close>: run from a context, it rejects (\<open>Inl\<close>) or resolves
  (\<open>Inr\<close>), and the store and the trace are what it left behind either way.
\<close>

type_synonym 'v async = "'v ctx \<Rightarrow> (error + unit) \<times> 'v ctx"

definition sync :: "('v ctx \<Rightarrow> 'v ctx) \<Rightarrow> 'v async" where
  "sync f c = (Inr (), f c)"

text \<open>\<^verbatim>\<open>await p; q\<close>: a rejection of \<open>p\<close> is thrown and \<open>q\<close> does not run.\<close>

definition await_then :: "'v async \<Rightarrow> 'v async \<Rightarrow> 'v async" where
  "await_then p q c =
     (case p c of
        (Inl e, c') \<Rightarrow> (Inl e, c')
      | (Inr u, c') \<Rightarrow> q c')"

definition set_store :: "string \<Rightarrow> ('v store \<Rightarrow> 'v store) \<Rightarrow> 'v ctx \<Rightarrow> 'v ctx" where
  "set_store action f c = c\<lparr>store := f (store c), trace := trace c @ [StoreSet action]\<rparr>"

definition call_gateway :: "'v world \<Rightarrow> 'v gateway_call \<Rightarrow> 'v async" where
  "call_gateway w g c =
     (if gateway w (trace c) g
      then (Inr (), c\<lparr>trace := trace c @ [Gateway g]\<rparr>)
      else (Inl GatewayError, c\<lparr>trace := trace c @ [Gateway g]\<rparr>))"

section \<open>The derived view\<close>

text \<open>
  Modelled from the spec: \<^verbatim>\<open>uniqBy\<close> of lodash is not among the sources. It is one
  pass from the left that keeps an element when its key has not been seen before, so the
  first occurrence wins and the order is kept.
\<close>

fun baseUniq :: "('a \<Rightarrow> 'k) \<Rightarrow> 'k list \<Rightarrow> 'a list \<Rightarrow> 'a list" where
  "baseUniq f seen [] = []"
| "baseUniq f seen (x # xs) =
     (if f x \<in> set seen then baseUniq f seen xs else x # baseUniq f (seen @ [f x]) xs)"

definition uniqBy :: "'a list \<Rightarrow> ('a \<Rightarrow> 'k) \<Rightarrow> 'a list" where
  "uniqBy xs f = baseUniq f [] xs"

definition getModelListByType :: "'v AiProviderInitState \<Rightarrow> string \<Rightarrow> string \<Rightarrow> ChatModelItem list" where
  "getModelListByType data providerId ty =
     uniqBy
       (map (\<lambda>model.
               \<lparr>item_abilities = (case model_abilities model of None \<Rightarrow> Map.empty | Some a \<Rightarrow> a),
                item_contextWindowTokens = model_contextWindowTokens model,
                item_displayName = (case model_displayName model of None \<Rightarrow> [] | Some n \<Rightarrow> n),
                item_id = model_id model\<rparr>)
          (filter (\<lambda>model. model_providerId model = providerId \<and> model_type model = ty)
             (init_enabledAiModels data)))
       item_id"

text \<open>\<^verbatim>\<open>provider.name || provider.id\<close>: an undefined and an empty name are both falsy.\<close>

definition enabledChatModelList_of :: "'v AiProviderInitState \<Rightarrow> ChatModelNode list" where
  "enabledChatModelList_of data =
     map (\<lambda>provider.
            \<lparr>node_children = getModelListByType data (provider_id provider) ''chat'',
             node_id = provider_id provider,
             node_name = (case provider_name provider of
                            None \<Rightarrow> provider_id provider
                          | Some n \<Rightarrow> if n = [] then provider_id provider else n)\<rparr>)
       (init_enabledAiProviders data)"

section \<open>The \<^verbatim>\<open>onSuccess\<close> callbacks of the three hooks\<close>

definition useFetchAiProviderItem_onSuccess :: "string \<Rightarrow> 'v option \<Rightarrow> 'v ctx \<Rightarrow> 'v ctx" where
  "useFetchAiProviderItem_onSuccess pid data c =
     (case data of
        None \<Rightarrow> c
      | Some d \<Rightarrow>
          set_store ''useFetchAiProviderItem''
            (\<lambda>s. s\<lparr>activeAiProvider := Some pid, aiProviderDetail := Some d\<rparr>) c)"

definition useFetchAiProviderList_onSuccess :: "'v list \<Rightarrow> 'v ctx \<Rightarrow> 'v ctx" where
  "useFetchAiProviderList_onSuccess data c =
     (if \<not> initAiProviderList (store c)
      then set_store ''useFetchAiProviderList/init''
             (\<lambda>s. s\<lparr>aiProviderList := data, initAiProviderList := True\<rparr>) c
      else set_store ''useFetchAiProviderList/refresh'' (\<lambda>s. s\<lparr>aiProviderList := data\<rparr>) c)"

definition useFetchAiProviderRuntimeState_onSuccess ::
  "'v AiProviderInitState option \<Rightarrow> 'v ctx \<Rightarrow> 'v ctx" where
  "useFetchAiProviderRuntimeState_onSuccess data c =
     (case data of
        None \<Rightarrow> c
      | Some d \<Rightarrow>
          set_store ''useInitAiProviderKeyVaults''
            (\<lambda>s. s\<lparr>aiProviderRuntimeConfig := Some (init_runtimeConfig d),
                   enabledAiModels := Some (init_enabledAiModels d),
                   enabledAiProviders := Some (init_enabledAiProviders d),
                   enabledChatModelList := Some (enabledChatModelList_of d)\<rparr>) c)"

text \<open>
  Modelled from the spec: \<^verbatim>\<open>mutate(key)\<close> marks the entry of the key stale and
  runs its fetch again; on data, the \<^verbatim>\<open>onSuccess\<close> of the hook bound to that key
  runs before the promise resolves. The detail hook is \<^verbatim>\<open>useFetchAiProviderItem(id)\<close>
  with \<^verbatim>\<open>id\<close> a string, so no hook is bound to the detail key of an undefined
  identifier.
\<close>

definition mutate :: "'v world \<Rightarrow> AiProviderSwrKey \<Rightarrow> 'v async" where
  "mutate w key c =
     (let c' = c\<lparr>trace := trace c @ [Mutate key]\<rparr> in
      case key of
        FetchAiProviderItem active \<Rightarrow>
          (case fetchItem w (trace c) active of
             Reject \<Rightarrow> (Inl RevalidateError, c')
           | NoData \<Rightarrow> (Inr (), c')
           | Data d \<Rightarrow>
               (case active of
                  None \<Rightarrow> (Inr (), c')
                | Some pid \<Rightarrow> (Inr (), useFetchAiProviderItem_onSuccess pid d c')))
      | FetchAiProviderList \<Rightarrow>
          (case fetchList w (trace c) of
             Reject \<Rightarrow> (Inl RevalidateError, c')
           | NoData \<Rightarrow> (Inr (), c')
           | Data d \<Rightarrow> (Inr (), useFetchAiProviderList_onSuccess d c'))
      | FetchAiProviderRuntimeState \<Rightarrow>
          (case fetchRuntimeState w (trace c) of
             Reject \<Rightarrow> (Inl RevalidateError, c')
           | NoData \<Rightarrow> (Inr (), c')
           | Data d \<Rightarrow> (Inr (), useFetchAiProviderRuntimeState_onSuccess d c')))"

section \<open>The actions of the slice\<close>

definition internal_toggleAiProviderLoading :: "string \<Rightarrow> bool \<Rightarrow> 'v ctx \<Rightarrow> 'v ctx" where
  "internal_toggleAiProviderLoading pid loading =
     set_store ''toggleAiProviderLoading''
       (\<lambda>state.
          if loading then state\<lparr>aiProviderLoadingIds := aiProviderLoadingIds state @ [pid]\<rparr>
          else state\<lparr>aiProviderLoadingIds := filter (\<lambda>i. i \<noteq> pid) (aiProviderLoadingIds state)\<rparr>)"

definition refreshAiProviderRuntimeState :: "'v world \<Rightarrow> 'v async" where
  "refreshAiProviderRuntimeState w = mutate w FetchAiProviderRuntimeState"

definition refreshAiProviderDetail :: "'v world \<Rightarrow> 'v async" where
  "refreshAiProviderDetail w c =
     await_then (mutate w (FetchAiProviderItem (activeAiProvider (store c))))
       (refreshAiProviderRuntimeState w) c"

definition refreshAiProviderList :: "'v world \<Rightarrow> 'v async" where
  "refreshAiProviderList w =
     await_then (mutate w FetchAiProviderList) (refreshAiProviderRuntimeState w)"

definition createNewAiProvider :: "'v world \<Rightarrow> 'v CreateAiProviderParams \<Rightarrow> 'v async" where
  "createNewAiProvider w params =
     await_then (call_gateway w (Service_createAiProvider (params\<lparr>cp_source := Custom\<rparr>)))
       (refreshAiProviderList w)"

definition deleteAiProvider :: "'v world \<Rightarrow> string \<Rightarrow> 'v async" where
  "deleteAiProvider w pid =
     await_then (call_gateway w (Service_deleteAiProvider pid)) (refreshAiProviderList w)"

definition removeAiProvider :: "'v world \<Rightarrow> string \<Rightarrow> 'v async" where
  "removeAiProvider w pid =
     await_then (call_gateway w (Service_deleteAiProvider pid)) (refreshAiProviderList w)"

definition toggleProviderEnabled :: "'v world \<Rightarrow> string \<Rightarrow> bool \<Rightarrow> 'v async" where
  "toggleProviderEnabled w pid enabled =
     await_then (sync (internal_toggleAiProviderLoading pid True))
       (await_then (call_gateway w (Service_toggleProviderEnabled pid enabled))
          (await_then (refreshAiProviderList w)
             (sync (internal_toggleAiProviderLoading pid False))))"

definition updateAiProvider :: "'v world \<Rightarrow> string \<Rightarrow> 'v \<Rightarrow> 'v async" where
  "updateAiProvider w pid v =
     await_then (sync (internal_toggleAiProviderLoading pid True))
       (await_then (call_gateway w (Service_updateAiProvider pid v))
          (await_then (refreshAiProviderList w)
             (await_then (refreshAiProviderDetail w)
                (sync (internal_toggleAiProviderLoading pid False)))))"

definition updateAiProviderConfig :: "'v world \<Rightarrow> string \<Rightarrow> 'v \<Rightarrow> 'v async" where
  "updateAiProviderConfig w pid v =
     await_then (sync (internal_toggleAiProviderLoading pid True))
       (await_then (call_gateway w (Service_updateAiProviderConfig pid v))
          (await_then (refreshAiProviderDetail w)
             (sync (internal_toggleAiProviderLoading pid False))))"

definition updateAiProviderSort :: "'v world \<Rightarrow> 'v list \<Rightarrow> 'v async" where
  "updateAiProviderSort w items =
     await_then (call_gateway w (Service_updateAiProviderOrder items)) (refreshAiProviderList w)"

section \<open>The derived view as the specification words it\<close>

text \<open>
  Deduplication where the first occurrence wins: the head is kept and every later element
  with the head's key is dropped.
\<close>

function dedup_first :: "('a \<Rightarrow> 'k) \<Rightarrow> 'a list \<Rightarrow> 'a list" where
  "dedup_first f [] = []"
| "dedup_first f (x # xs) = x # dedup_first f (filter (\<lambda>y. f y \<noteq> f x) xs)"
  by pat_completeness auto
termination
  by (relation "measure (\<lambda>(f, xs). length xs)") (auto simp: less_Suc_eq_le)

text \<open>
  The tree of the specification: one node per enabled provider; its children are the
  enabled models of that provider of type \<open>chat\<close>, deduplicated by identifier, then
  projected with the fallbacks for the display name and the abilities.
\<close>

definition enabledChatModelTree_spec :: "'v AiProviderInitState \<Rightarrow> ChatModelNode list" where
  "enabledChatModelTree_spec data =
     map (\<lambda>provider.
            \<lparr>node_children =
               map (\<lambda>model.
                      \<lparr>item_abilities = (case model_abilities model of None \<Rightarrow> Map.empty | Some a \<Rightarrow> a),
                       item_contextWindowTokens = model_contextWindowTokens model,
                       item_displayName = (case model_displayName model of None \<Rightarrow> [] | Some n \<Rightarrow> n),
                       item_id = model_id model\<rparr>)
                 (dedup_first model_id
                    (filter (\<lambda>model. model_providerId model = provider_id provider \<and> model_type model = ''chat'')
                       (init_enabledAiModels data))),
             node_id = provider_id provider,
             node_name = (case provider_name provider of
                            None \<Rightarrow> provider_id provider
                          | Some n \<Rightarrow> if n = [] then provider_id provider else n)\<rparr>)
       (init_enabledAiProviders data)"

section \<open>Reading a trace\<close>

text \<open>The effects outside the store: the trace without the calls of \<^verbatim>\<open>set\<close>.\<close>

definition external :: "'v event list \<Rightarrow> 'v event list" where
  "external t = filter (\<lambda>e. case e of StoreSet a \<Rightarrow> False | _ \<Rightarrow> True) t"

text \<open>The calls of the service in a trace, in order.\<close>

definition gateway_calls :: "'v event list \<Rightarrow> 'v gateway_call list" where
  "gateway_calls t = concat (map (\<lambda>e. case e of Gateway g \<Rightarrow> [g] | _ \<Rightarrow> []) t)"

section \<open>Concrete stores and worlds\<close>

text \<open>
  The snapshot of the scenario in the specification: one chat model \<open>m1\<close> of the
  provider \<open>p1\<close>, both without a name.
\<close>

definition snapshot1 :: "nat AiProviderInitState" where
  "snapshot1 =
     \<lparr>init_enabledAiModels =
        [\<lparr>model_abilities = None, model_contextWindowTokens = None, model_displayName = None,
          model_id = ''m1'', model_providerId = ''p1'', model_type = ''chat''\<rparr>],
      init_enabledAiProviders = [\<lparr>provider_id = ''p1'', provider_name = None\<rparr>],
      init_runtimeConfig = 0\<rparr>"

definition store1 :: "nat store" where
  "store1 =
     \<lparr>activeAiProvider = Some ''p2'', aiProviderDetail = None, aiProviderList = [],
      aiProviderLoadingIds = [''p9''], aiProviderRuntimeConfig = None, enabledAiModels = None,
      enabledAiProviders = None, enabledChatModelList = None, initAiProviderList = False\<rparr>"

definition ctx1 :: "nat ctx" where
  "ctx1 = \<lparr>store = store1, trace = []\<rparr>"

definition world_up :: "nat world" where
  "world_up =
     \<lparr>gateway = (\<lambda>t g. True),
      fetchItem = (\<lambda>t a. Data (Some 7)),
      fetchList = (\<lambda>t. Data [1, 2]),
      fetchRuntimeState = (\<lambda>t. Data (Some snapshot1))\<rparr>"

definition world_down :: "nat world" where
  "world_down =
     \<lparr>gateway = (\<lambda>t g. False),
      fetchItem = (\<lambda>t a. NoData),
      fetchList = (\<lambda>t. NoData),
      fetchRuntimeState = (\<lambda>t. NoData)\<rparr>"

text \<open>A world whose service accepts every call and whose list invalidation rejects.\<close>

definition world_list_rejects :: "nat world" where
  "world_list_rejects =
     \<lparr>gateway = (\<lambda>t g. True),
      fetchItem = (\<lambda>t a. Data (Some 7)),
      fetchList = (\<lambda>t. Reject),
      fetchRuntimeState = (\<lambda>t. Data (Some snapshot1))\<rparr>"

text \<open>
  A snapshot with a duplicated model, a model of another type, a model of a provider that
  is not enabled and a provider with an empty name; and one that lists a provider twice.
\<close>

definition snapshot2 :: "nat AiProviderInitState" where
  "snapshot2 =
     \<lparr>init_enabledAiModels =
        [\<lparr>model_abilities = Some [''vision'' \<mapsto> True], model_contextWindowTokens = Some 4096,
          model_displayName = Some ''M1'', model_id = ''m1'', model_providerId = ''p1'',
          model_type = ''chat''\<rparr>,
         \<lparr>model_abilities = None, model_contextWindowTokens = None,
          model_displayName = Some ''again'', model_id = ''m1'', model_providerId = ''p1'',
          model_type = ''chat''\<rparr>,
         \<lparr>model_abilities = None, model_contextWindowTokens = None,
          model_displayName = None, model_id = ''m2'', model_providerId = ''p1'',
          model_type = ''embedding''\<rparr>,
         \<lparr>model_abilities = None, model_contextWindowTokens = None,
          model_displayName = None, model_id = ''m3'', model_providerId = ''p2'',
          model_type = ''chat''\<rparr>,
         \<lparr>model_abilities = None, model_contextWindowTokens = None,
          model_displayName = None, model_id = ''m4'', model_providerId = ''p3'',
          model_type = ''chat''\<rparr>],
      init_enabledAiProviders =
        [\<lparr>provider_id = ''p1'', provider_name = Some ''One''\<rparr>,
         \<lparr>provider_id = ''p2'', provider_name = Some []\<rparr>],
      init_runtimeConfig = 0\<rparr>"

definition snapshot_dup :: "nat AiProviderInitState" where
  "snapshot_dup =
     \<lparr>init_enabledAiModels = [],
      init_enabledAiProviders =
        [\<lparr>provider_id = ''p1'', provider_name = None\<rparr>,
         \<lparr>provider_id = ''p1'', provider_name = None\<rparr>],
      init_runtimeConfig = 0\<rparr>"

text \<open>Parameters of \<^verbatim>\<open>createNewAiProvider\<close> with an empty identifier.\<close>

definition params_empty_id :: "nat CreateAiProviderParams" where
  "params_empty_id = \<lparr>cp_id = [], cp_source = Builtin, cp_fields = 0\<rparr>"

section \<open>Sequencing\<close>

lemmas run_defs = await_then_def sync_def call_gateway_def mutate_def Let_def set_store_def
  internal_toggleAiProviderLoading_def refreshAiProviderRuntimeState_def refreshAiProviderList_def
  refreshAiProviderDetail_def useFetchAiProviderItem_onSuccess_def
  useFetchAiProviderList_onSuccess_def useFetchAiProviderRuntimeState_onSuccess_def

lemma external_append [simp]: "external (xs @ ys) = external xs @ external ys"
  by (simp add: external_def)

lemma external_simps [simp]:
  "external [] = []"
  "external (Gateway g # t) = Gateway g # external t"
  "external (Mutate k # t) = Mutate k # external t"
  "external (StoreSet a # t) = external t"
  by (simp_all add: external_def)

lemma await_then_unfold:
  "await_then p q c = (if isl (fst (p c)) then p c else q (snd (p c)))"
  by (cases "p c"; cases "fst (p c)") (auto simp: await_then_def)

lemma fst_sync [simp]: "fst (sync f c) = Inr ()"
  by (simp add: sync_def)

lemma snd_sync [simp]: "snd (sync f c) = f c"
  by (simp add: sync_def)

lemma fst_call_gateway [simp]:
  "fst (call_gateway w g c) = (if gateway w (trace c) g then Inr () else Inl GatewayError)"
  by (simp add: call_gateway_def)

lemma snd_call_gateway [simp]:
  "snd (call_gateway w g c) = c\<lparr>trace := trace c @ [Gateway g]\<rparr>"
  by (simp add: call_gateway_def)

lemma store_mutate_cases:
  "snd (mutate w key c) = c\<lparr>trace := trace c @ [Mutate key]\<rparr>
   \<or> (\<exists>pid d. key = FetchAiProviderItem (Some pid)
         \<and> snd (mutate w key c) = useFetchAiProviderItem_onSuccess pid d (c\<lparr>trace := trace c @ [Mutate key]\<rparr>))
   \<or> (\<exists>d. key = FetchAiProviderList
         \<and> snd (mutate w key c) = useFetchAiProviderList_onSuccess d (c\<lparr>trace := trace c @ [Mutate key]\<rparr>))
   \<or> (\<exists>d. key = FetchAiProviderRuntimeState
         \<and> snd (mutate w key c) = useFetchAiProviderRuntimeState_onSuccess d (c\<lparr>trace := trace c @ [Mutate key]\<rparr>))"
  by (auto simp: mutate_def Let_def split: AiProviderSwrKey.splits revalidation.splits option.splits)

lemma external_onSuccess [simp]:
  "external (trace (useFetchAiProviderItem_onSuccess pid d c)) = external (trace c)"
  "external (trace (useFetchAiProviderList_onSuccess l c)) = external (trace c)"
  "external (trace (useFetchAiProviderRuntimeState_onSuccess r c)) = external (trace c)"
  by (simp_all add: useFetchAiProviderItem_onSuccess_def useFetchAiProviderList_onSuccess_def
      useFetchAiProviderRuntimeState_onSuccess_def set_store_def split: option.splits)

lemma loading_onSuccess [simp]:
  "aiProviderLoadingIds (store (useFetchAiProviderItem_onSuccess pid d c)) = aiProviderLoadingIds (store c)"
  "aiProviderLoadingIds (store (useFetchAiProviderList_onSuccess l c)) = aiProviderLoadingIds (store c)"
  "aiProviderLoadingIds (store (useFetchAiProviderRuntimeState_onSuccess r c)) = aiProviderLoadingIds (store c)"
  by (simp_all add: useFetchAiProviderItem_onSuccess_def useFetchAiProviderList_onSuccess_def
      useFetchAiProviderRuntimeState_onSuccess_def set_store_def split: option.splits)

lemma external_mutate [simp]:
  "external (trace (snd (mutate w key c))) = external (trace c) @ [Mutate key]"
  using store_mutate_cases [of w key c] by auto

lemma loading_mutate [simp]:
  "aiProviderLoadingIds (store (snd (mutate w key c))) = aiProviderLoadingIds (store c)"
  using store_mutate_cases [of w key c] by auto

lemma loading_refreshAiProviderRuntimeState [simp]:
  "aiProviderLoadingIds (store (snd (refreshAiProviderRuntimeState w c))) = aiProviderLoadingIds (store c)"
  by (simp add: refreshAiProviderRuntimeState_def)

lemma loading_refreshAiProviderList [simp]:
  "aiProviderLoadingIds (store (snd (refreshAiProviderList w c))) = aiProviderLoadingIds (store c)"
  by (simp add: refreshAiProviderList_def await_then_unfold)

lemma loading_refreshAiProviderDetail [simp]:
  "aiProviderLoadingIds (store (snd (refreshAiProviderDetail w c))) = aiProviderLoadingIds (store c)"
  by (simp add: refreshAiProviderDetail_def await_then_unfold)

lemma loading_internal_toggle [simp]:
  "aiProviderLoadingIds (store (internal_toggleAiProviderLoading pid True c)) = aiProviderLoadingIds (store c) @ [pid]"
  "aiProviderLoadingIds (store (internal_toggleAiProviderLoading pid False c)) = filter (\<lambda>i. i \<noteq> pid) (aiProviderLoadingIds (store c))"
  by (simp_all add: internal_toggleAiProviderLoading_def set_store_def)

lemma trace_internal_toggle [simp]:
  "trace (internal_toggleAiProviderLoading pid b c) = trace c @ [StoreSet ''toggleAiProviderLoading'']"
  by (simp add: internal_toggleAiProviderLoading_def set_store_def)

lemma isl_fst_iff: "isl (r :: error + unit) \<longleftrightarrow> r \<noteq> Inr ()"
  by (cases r) auto

lemma external_refreshAiProviderRuntimeState [simp]:
  "external (trace (snd (refreshAiProviderRuntimeState w c)))
     = external (trace c) @ [Mutate FetchAiProviderRuntimeState]"
  by (simp add: refreshAiProviderRuntimeState_def)

lemma external_refreshAiProviderList:
  "external (trace (snd (refreshAiProviderList w c)))
     = external (trace c) @ Mutate FetchAiProviderList #
         (if fst (mutate w FetchAiProviderList c) = Inr ()
          then [Mutate FetchAiProviderRuntimeState] else [])"
  by (simp add: refreshAiProviderList_def await_then_unfold isl_fst_iff)

lemma external_refreshAiProviderDetail:
  "external (trace (snd (refreshAiProviderDetail w c)))
     = external (trace c) @ Mutate (FetchAiProviderItem (activeAiProvider (store c))) #
         (if fst (mutate w (FetchAiProviderItem (activeAiProvider (store c))) c) = Inr ()
          then [Mutate FetchAiProviderRuntimeState] else [])"
  by (simp add: refreshAiProviderDetail_def await_then_unfold isl_fst_iff)

lemma resolved_refreshAiProviderList:
  "fst (refreshAiProviderList w c) = Inr () \<Longrightarrow> fst (mutate w FetchAiProviderList c) = Inr ()"
  by (simp add: refreshAiProviderList_def await_then_unfold isl_fst_iff split: if_splits)

lemma resolved_refreshAiProviderDetail:
  "fst (refreshAiProviderDetail w c) = Inr () \<Longrightarrow>
   fst (mutate w (FetchAiProviderItem (activeAiProvider (store c))) c) = Inr ()"
  by (simp add: refreshAiProviderDetail_def await_then_unfold isl_fst_iff split: if_splits)

lemma active_onSuccess [simp]:
  "activeAiProvider (store (useFetchAiProviderList_onSuccess l c)) = activeAiProvider (store c)"
  "activeAiProvider (store (useFetchAiProviderRuntimeState_onSuccess r c)) = activeAiProvider (store c)"
  "activeAiProvider (store (useFetchAiProviderItem_onSuccess pid None c)) = activeAiProvider (store c)"
  "activeAiProvider (store (useFetchAiProviderItem_onSuccess pid (Some d) c)) = Some pid"
  by (simp_all add: useFetchAiProviderItem_onSuccess_def useFetchAiProviderList_onSuccess_def
      useFetchAiProviderRuntimeState_onSuccess_def set_store_def split: option.splits)

lemma active_mutate:
  "(\<And>a. key = FetchAiProviderItem a \<Longrightarrow> a = activeAiProvider (store c)) \<Longrightarrow>
   activeAiProvider (store (snd (mutate w key c))) = activeAiProvider (store c)"
  by (cases key)
     (auto simp: mutate_def Let_def useFetchAiProviderItem_onSuccess_def set_store_def
           split: revalidation.splits option.splits)

lemma active_mutate_keys [simp]:
  "activeAiProvider (store (snd (mutate w FetchAiProviderList c))) = activeAiProvider (store c)"
  "activeAiProvider (store (snd (mutate w FetchAiProviderRuntimeState c))) = activeAiProvider (store c)"
  "activeAiProvider (store (snd (mutate w (FetchAiProviderItem (activeAiProvider (store c))) c)))
     = activeAiProvider (store c)"
  by (rule active_mutate; simp)+

lemma external_refreshAiProviderList_resolved:
  "fst (refreshAiProviderList w c) = Inr () \<Longrightarrow>
   external (trace (snd (refreshAiProviderList w c)))
     = external (trace c) @ [Mutate FetchAiProviderList, Mutate FetchAiProviderRuntimeState]"
  by (simp add: external_refreshAiProviderList resolved_refreshAiProviderList)

lemma external_refreshAiProviderDetail_resolved:
  "fst (refreshAiProviderDetail w c) = Inr () \<Longrightarrow>
   external (trace (snd (refreshAiProviderDetail w c)))
     = external (trace c) @ [Mutate (FetchAiProviderItem (activeAiProvider (store c))),
                             Mutate FetchAiProviderRuntimeState]"
  by (simp add: external_refreshAiProviderDetail resolved_refreshAiProviderDetail)

lemma active_refreshAiProviderRuntimeState [simp]:
  "activeAiProvider (store (snd (refreshAiProviderRuntimeState w c))) = activeAiProvider (store c)"
  by (simp add: refreshAiProviderRuntimeState_def active_mutate)

lemma active_refreshAiProviderList [simp]:
  "activeAiProvider (store (snd (refreshAiProviderList w c))) = activeAiProvider (store c)"
  by (simp add: refreshAiProviderList_def await_then_unfold active_mutate)

lemma active_refreshAiProviderDetail [simp]:
  "activeAiProvider (store (snd (refreshAiProviderDetail w c))) = activeAiProvider (store c)"
  by (simp add: refreshAiProviderDetail_def await_then_unfold active_mutate)

lemma active_internal_toggle [simp]:
  "activeAiProvider (store (internal_toggleAiProviderLoading pid b c)) = activeAiProvider (store c)"
  by (simp add: internal_toggleAiProviderLoading_def set_store_def)

lemma gateway_calls_append [simp]: "gateway_calls (xs @ ys) = gateway_calls xs @ gateway_calls ys"
  by (simp add: gateway_calls_def)

lemma gateway_calls_simps [simp]:
  "gateway_calls [] = []"
  "gateway_calls (Gateway g # t) = g # gateway_calls t"
  "gateway_calls (Mutate k # t) = gateway_calls t"
  "gateway_calls (StoreSet a # t) = gateway_calls t"
  by (simp_all add: gateway_calls_def)

lemma gateway_calls_external: "gateway_calls (external t) = gateway_calls t"
proof (induction t)
  case Nil
  show ?case by simp
next
  case (Cons e t)
  then show ?case by (cases e) simp_all
qed

lemma gateway_calls_refreshAiProviderList [simp]:
  "gateway_calls (trace (snd (refreshAiProviderList w c))) = gateway_calls (trace c)"
proof -
  have "gateway_calls (external (trace (snd (refreshAiProviderList w c)))) = gateway_calls (trace c)"
    by (simp add: external_refreshAiProviderList gateway_calls_external)
  then show ?thesis by (simp add: gateway_calls_external)
qed

lemma trace_onSuccess_grows:
  "\<exists>es. trace (useFetchAiProviderItem_onSuccess pid d c) = trace c @ es"
  "\<exists>es. trace (useFetchAiProviderList_onSuccess l c) = trace c @ es"
  "\<exists>es. trace (useFetchAiProviderRuntimeState_onSuccess r c) = trace c @ es"
  by (simp_all add: useFetchAiProviderItem_onSuccess_def useFetchAiProviderList_onSuccess_def
      useFetchAiProviderRuntimeState_onSuccess_def set_store_def split: option.splits)

lemma trace_mutate_grows:
  "\<exists>es. trace (snd (mutate w key c)) = trace c @ Mutate key # es"
proof -
  let ?c = "c\<lparr>trace := trace c @ [Mutate key]\<rparr>"
  from store_mutate_cases [of w key c]
  consider "snd (mutate w key c) = ?c"
    | pid d where "snd (mutate w key c) = useFetchAiProviderItem_onSuccess pid d ?c"
    | l where "snd (mutate w key c) = useFetchAiProviderList_onSuccess l ?c"
    | r where "snd (mutate w key c) = useFetchAiProviderRuntimeState_onSuccess r ?c"
    by blast
  then show ?thesis
  proof cases
    case 1
    then show ?thesis by simp
  next
    case 2
    with trace_onSuccess_grows(1) [of pid d ?c] show ?thesis by auto
  next
    case 3
    with trace_onSuccess_grows(2) [of l ?c] show ?thesis by auto
  next
    case 4
    with trace_onSuccess_grows(3) [of r ?c] show ?thesis by auto
  qed
qed

lemma trace_refreshAiProviderList_grows:
  "\<exists>es. trace (snd (refreshAiProviderList w c)) = trace c @ Mutate FetchAiProviderList # es"
proof -
  obtain es where es: "trace (snd (mutate w FetchAiProviderList c)) = trace c @ Mutate FetchAiProviderList # es"
    using trace_mutate_grows by blast
  obtain es' where "trace (snd (mutate w FetchAiProviderRuntimeState (snd (mutate w FetchAiProviderList c))))
      = trace (snd (mutate w FetchAiProviderList c)) @ Mutate FetchAiProviderRuntimeState # es'"
    using trace_mutate_grows by blast
  with es show ?thesis
    by (simp add: refreshAiProviderList_def refreshAiProviderRuntimeState_def await_then_unfold)
qed

lemma trace_refreshAiProviderDetail_grows:
  "\<exists>es. trace (snd (refreshAiProviderDetail w c))
     = trace c @ Mutate (FetchAiProviderItem (activeAiProvider (store c))) # es"
proof -
  let ?k = "FetchAiProviderItem (activeAiProvider (store c))"
  obtain es where es: "trace (snd (mutate w ?k c)) = trace c @ Mutate ?k # es"
    using trace_mutate_grows by blast
  obtain es' where "trace (snd (mutate w FetchAiProviderRuntimeState (snd (mutate w ?k c))))
      = trace (snd (mutate w ?k c)) @ Mutate FetchAiProviderRuntimeState # es'"
    using trace_mutate_grows by blast
  with es show ?thesis
    by (simp add: refreshAiProviderDetail_def refreshAiProviderRuntimeState_def await_then_unfold)
qed

lemma external_toggle_resolved:
  "fst (toggleProviderEnabled w pid enabled c) = Inr () \<Longrightarrow>
   external (trace (snd (toggleProviderEnabled w pid enabled c)))
     = external (trace c) @ [Gateway (Service_toggleProviderEnabled pid enabled),
          Mutate FetchAiProviderList, Mutate FetchAiProviderRuntimeState]"
  by (simp add: toggleProviderEnabled_def await_then_unfold isl_fst_iff
       external_refreshAiProviderList_resolved split: if_splits)

lemma external_update_resolved:
  "fst (updateAiProvider w pid v c) = Inr () \<Longrightarrow>
   external (trace (snd (updateAiProvider w pid v c)))
     = external (trace c) @ [Gateway (Service_updateAiProvider pid v),
          Mutate FetchAiProviderList, Mutate FetchAiProviderRuntimeState,
          Mutate (FetchAiProviderItem (activeAiProvider (store c))), Mutate FetchAiProviderRuntimeState]"
  by (simp add: updateAiProvider_def await_then_unfold isl_fst_iff
       external_refreshAiProviderList_resolved external_refreshAiProviderDetail_resolved
       split: if_splits)

lemma external_updateConfig_resolved:
  "fst (updateAiProviderConfig w pid v c) = Inr () \<Longrightarrow>
   external (trace (snd (updateAiProviderConfig w pid v c)))
     = external (trace c) @ [Gateway (Service_updateAiProviderConfig pid v),
          Mutate (FetchAiProviderItem (activeAiProvider (store c))), Mutate FetchAiProviderRuntimeState]"
  by (simp add: updateAiProviderConfig_def await_then_unfold isl_fst_iff
       external_refreshAiProviderDetail_resolved
       split: if_splits)

lemma gateway_calls_mutate [simp]:
  "gateway_calls (trace (snd (mutate w key c))) = gateway_calls (trace c)"
  using gateway_calls_external [of "trace (snd (mutate w key c))"]
    gateway_calls_external [of "trace c"]
  by simp

lemma gateway_calls_refreshAiProviderDetail [simp]:
  "gateway_calls (trace (snd (refreshAiProviderDetail w c))) = gateway_calls (trace c)"
proof -
  have "gateway_calls (external (trace (snd (refreshAiProviderDetail w c)))) = gateway_calls (trace c)"
    by (simp add: external_refreshAiProviderDetail gateway_calls_external)
  then show ?thesis by (simp add: gateway_calls_external)
qed



lemma external_refreshAiProviderList_grows:
  "\<exists>es. external (trace (snd (refreshAiProviderList w c)))
     = external (trace c) @ Mutate FetchAiProviderList # es"
  by (simp add: external_refreshAiProviderList)

lemma external_refreshAiProviderDetail_grows:
  "\<exists>es. external (trace (snd (refreshAiProviderDetail w c)))
     = external (trace c) @ Mutate (FetchAiProviderItem (activeAiProvider (store c))) # es
     \<and> Mutate FetchAiProviderList \<notin> set es"
  by (simp add: external_refreshAiProviderDetail)

lemma external_accepted_collection:
  "gateway w (trace c) g \<Longrightarrow>
   \<exists>es. external (trace (snd (await_then (call_gateway w g) (refreshAiProviderList w) c)))
     = external (trace c) @ Gateway g # Mutate FetchAiProviderList # es"
  using external_refreshAiProviderList_grows [of w "c\<lparr>trace := trace c @ [Gateway g]\<rparr>"]
  by (simp add: await_then_unfold)

lemma external_list_then_grows:
  assumes q: "\<And>c'. \<exists>es. external (trace (snd (q c'))) = external (trace c') @ es"
  shows "\<exists>es. external (trace (snd (await_then (refreshAiProviderList w) q c)))
           = external (trace c) @ Mutate FetchAiProviderList # es"
proof -
  obtain es where es: "external (trace (snd (refreshAiProviderList w c)))
      = external (trace c) @ Mutate FetchAiProviderList # es"
    using external_refreshAiProviderList_grows by blast
  obtain es' where es': "external (trace (snd (q (snd (refreshAiProviderList w c)))))
      = external (trace (snd (refreshAiProviderList w c))) @ es'"
    using q by blast
  show ?thesis
    using es es' by (simp add: await_then_unfold)
qed

lemma external_detail_then_release_grows:
  "\<exists>es. external (trace (snd (await_then (refreshAiProviderDetail w)
            (sync (internal_toggleAiProviderLoading pid False)) c')))
     = external (trace c') @ es"
  using external_refreshAiProviderDetail_grows [of w c']
  by (auto simp add: await_then_unfold)

lemma external_accepted_per_id:
  assumes g: "gateway w (trace c @ [StoreSet ''toggleAiProviderLoading'']) g"
    and q: "\<And>c'. \<exists>es. external (trace (snd (q c'))) = external (trace c') @ es"
  shows "\<exists>es. external (trace (snd (await_then (sync (internal_toggleAiProviderLoading pid True))
            (await_then (call_gateway w g) (await_then (refreshAiProviderList w) q)) c)))
     = external (trace c) @ Gateway g # Mutate FetchAiProviderList # es"
  using g external_list_then_grows [of q w
      "(internal_toggleAiProviderLoading pid True c)
         \<lparr>trace := trace c @ [StoreSet ''toggleAiProviderLoading'', Gateway g]\<rparr>", OF q]
  by (simp add: await_then_unfold)

lemma active_actions:
  "activeAiProvider (store (snd (createNewAiProvider w params c))) = activeAiProvider (store c)"
  "activeAiProvider (store (snd (deleteAiProvider w pid c))) = activeAiProvider (store c)"
  "activeAiProvider (store (snd (removeAiProvider w pid c))) = activeAiProvider (store c)"
  "activeAiProvider (store (snd (updateAiProviderSort w items c))) = activeAiProvider (store c)"
  "activeAiProvider (store (snd (toggleProviderEnabled w pid enabled c))) = activeAiProvider (store c)"
  "activeAiProvider (store (snd (updateAiProvider w pid v c))) = activeAiProvider (store c)"
  "activeAiProvider (store (snd (updateAiProviderConfig w pid v c))) = activeAiProvider (store c)"
  by (simp_all add: createNewAiProvider_def deleteAiProvider_def removeAiProvider_def
        updateAiProviderSort_def toggleProviderEnabled_def updateAiProvider_def
        updateAiProviderConfig_def await_then_unfold)







lemma fst_mutate_list:
  "fst (mutate w FetchAiProviderList c) = Inr () \<longleftrightarrow> fetchList w (trace c) \<noteq> Reject"
  by (simp add: mutate_def Let_def split: revalidation.splits)

lemma external_list_resolved:
  "fetchList w (trace c) \<noteq> Reject \<Longrightarrow>
   external (trace (snd (refreshAiProviderList w c)))
     = external (trace c) @ [Mutate FetchAiProviderList, Mutate FetchAiProviderRuntimeState]"
  by (simp add: external_refreshAiProviderList fst_mutate_list)

lemma refreshAiProviderList_rejected:
  "fetchList w (trace c) = Reject \<Longrightarrow>
   refreshAiProviderList w c
     = (Inl RevalidateError, c\<lparr>trace := trace c @ [Mutate FetchAiProviderList]\<rparr>)"
  by (simp add: refreshAiProviderList_def await_then_def mutate_def Let_def)

lemma cascade_collection:
  "gateway w (trace c) g \<Longrightarrow> fetchList w (trace c @ [Gateway g]) \<noteq> Reject \<Longrightarrow>
   external (trace (snd (await_then (call_gateway w g) (refreshAiProviderList w) c)))
     = external (trace c) @ [Gateway g, Mutate FetchAiProviderList, Mutate FetchAiProviderRuntimeState]"
  by (simp add: await_then_unfold external_list_resolved)

lemma cascade_list_then:
  assumes l: "fetchList w (trace c) \<noteq> Reject"
    and q: "\<And>c'. \<exists>es. external (trace (snd (q c'))) = external (trace c') @ es"
  shows "\<exists>es. external (trace (snd (await_then (refreshAiProviderList w) q c)))
           = external (trace c) @ Mutate FetchAiProviderList # Mutate FetchAiProviderRuntimeState # es"
proof -
  obtain es where "external (trace (snd (q (snd (refreshAiProviderList w c)))))
      = external (trace (snd (refreshAiProviderList w c))) @ es"
    using q by blast
  then show ?thesis
    using external_list_resolved [OF l] by (simp add: await_then_unfold)
qed

lemma cascade_per_id:
  assumes g: "gateway w (trace c @ [StoreSet ''toggleAiProviderLoading'']) g"
    and l: "fetchList w (trace c @ [StoreSet ''toggleAiProviderLoading'', Gateway g]) \<noteq> Reject"
    and q: "\<And>c'. \<exists>es. external (trace (snd (q c'))) = external (trace c') @ es"
  shows "\<exists>es. external (trace (snd (await_then (sync (internal_toggleAiProviderLoading pid True))
            (await_then (call_gateway w g) (await_then (refreshAiProviderList w) q)) c)))
     = external (trace c) @ Gateway g # Mutate FetchAiProviderList
         # Mutate FetchAiProviderRuntimeState # es"
proof -
  let ?c = "(internal_toggleAiProviderLoading pid True c)
         \<lparr>trace := trace c @ [StoreSet ''toggleAiProviderLoading'', Gateway g]\<rparr>"
  have "fetchList w (trace ?c) \<noteq> Reject"
    using l by simp
  from cascade_list_then [of w ?c q, OF this q] g show ?thesis
    by (simp add: await_then_unfold)
qed

section \<open>Deduplication\<close>

lemma baseUniq_dedup_first:
  "baseUniq f seen xs = dedup_first f (filter (\<lambda>x. f x \<notin> set seen) xs)"
proof (induction xs arbitrary: seen)
  case Nil
  show ?case by simp
next
  case (Cons x xs)
  have "filter (\<lambda>y. f y \<noteq> f x) (filter (\<lambda>y. f y \<notin> set seen) xs)
          = filter (\<lambda>y. f y \<notin> set (seen @ [f x])) xs"
    by (auto intro: filter_cong)
  with Cons show ?case by simp
qed

lemma uniqBy_dedup_first: "uniqBy xs f = dedup_first f xs"
  by (simp add: uniqBy_def baseUniq_dedup_first)

lemma dedup_first_map:
  "(\<And>x. g (h x) = f x) \<Longrightarrow> dedup_first g (map h xs) = map h (dedup_first f xs)"
proof (induction f xs rule: dedup_first.induct)
  case (1 f)
  show ?case by simp
next
  case (2 f x xs)
  then show ?case by (simp add: filter_map comp_def)
qed

lemma set_dedup_first: "set (dedup_first f xs) \<subseteq> set xs"
  by (induction f xs rule: dedup_first.induct) auto

lemma distinct_dedup_first: "distinct (map f (dedup_first f xs))"
proof (induction f xs rule: dedup_first.induct)
  case (1 f)
  show ?case by simp
next
  case (2 f x xs)
  have "f x \<notin> f ` set (dedup_first f (filter (\<lambda>y. f y \<noteq> f x) xs))"
    using set_dedup_first [of f "filter (\<lambda>y. f y \<noteq> f x) xs"] by auto
  with 2 show ?case by simp
qed

lemma enabledChatModelList_of_spec: "enabledChatModelList_of d = enabledChatModelTree_spec d"
  by (simp add: enabledChatModelList_of_def enabledChatModelTree_spec_def getModelListByType_def
        uniqBy_dedup_first dedup_first_map)

lemma children_distinct:
  "n \<in> set (enabledChatModelList_of d) \<Longrightarrow> distinct (map item_id (node_children n))"
  by (auto simp: enabledChatModelList_of_def getModelListByType_def uniqBy_dedup_first
        distinct_dedup_first)

lemma find_filter_implied:
  "(\<And>z. P z \<Longrightarrow> Q z) \<Longrightarrow> find P (filter Q xs) = find P xs"
  by (induction xs) auto

lemma dedup_first_find:
  "y \<in> set (dedup_first f xs) \<Longrightarrow> find (\<lambda>x. f x = f y) xs = Some y"
proof (induction f xs rule: dedup_first.induct)
  case (1 f)
  then show ?case by simp
next
  case (2 f x xs)
  show ?case
  proof (cases "y = x")
    case True
    then show ?thesis by simp
  next
    case False
    with "2.prems" have y: "y \<in> set (dedup_first f (filter (\<lambda>z. f z \<noteq> f x) xs))"
      by simp
    then have neq: "f y \<noteq> f x"
      using set_dedup_first [of f "filter (\<lambda>z. f z \<noteq> f x) xs"] by auto
    have "find (\<lambda>z. f z = f y) (filter (\<lambda>z. f z \<noteq> f x) xs) = Some y"
      using "2.IH" y by simp
    moreover have "find (\<lambda>z. f z = f y) (filter (\<lambda>z. f z \<noteq> f x) xs) = find (\<lambda>z. f z = f y) xs"
      using neq by (intro find_filter_implied) auto
    ultimately show ?thesis using neq by auto
  qed
qed

lemma keys_dedup_first: "f ` set (dedup_first f xs) = f ` set xs"
proof (induction f xs rule: dedup_first.induct)
  case (1 f)
  show ?case by simp
next
  case (2 f x xs)
  then show ?case by auto
qed

lemma find_filter: "find P (filter Q xs) = find (\<lambda>x. Q x \<and> P x) xs"
  by (induction xs) auto

lemma children_first_occurrence:
  assumes n: "n \<in> set (enabledChatModelList_of d)"
    and c: "c \<in> set (node_children n)"
  shows "\<exists>m. find (\<lambda>m. (model_providerId m = node_id n \<and> model_type m = ''chat'')
                      \<and> model_id m = item_id c) (init_enabledAiModels d) = Some m
           \<and> item_abilities c = (case model_abilities m of None \<Rightarrow> Map.empty | Some a \<Rightarrow> a)
           \<and> item_contextWindowTokens c = model_contextWindowTokens m
           \<and> item_displayName c = (case model_displayName m of None \<Rightarrow> [] | Some x \<Rightarrow> x)"
proof -
  let ?Q = "\<lambda>m. model_providerId m = node_id n \<and> model_type m = ''chat''"
  let ?ms = "filter ?Q (init_enabledAiModels d)"
  from n c obtain m where m: "m \<in> set (dedup_first model_id ?ms)"
    and cm: "c = \<lparr>item_abilities = (case model_abilities m of None \<Rightarrow> Map.empty | Some a \<Rightarrow> a),
                  item_contextWindowTokens = model_contextWindowTokens m,
                  item_displayName = (case model_displayName m of None \<Rightarrow> [] | Some x \<Rightarrow> x),
                  item_id = model_id m\<rparr>"
    by (auto simp: enabledChatModelList_of_spec enabledChatModelTree_spec_def)
  have "find (\<lambda>x. model_id x = model_id m) ?ms = Some m"
    using m by (rule dedup_first_find)
  then have "find (\<lambda>x. ?Q x \<and> model_id x = model_id m) (init_enabledAiModels d) = Some m"
    by (simp only: find_filter)
  with cm show ?thesis by auto
qed

lemma children_ids:
  assumes n: "n \<in> set (enabledChatModelList_of d)"
  shows "item_id ` set (node_children n)
           = model_id ` {m \<in> set (init_enabledAiModels d).
                           model_providerId m = node_id n \<and> model_type m = ''chat''}"
proof -
  let ?Q = "\<lambda>m. model_providerId m = node_id n \<and> model_type m = ''chat''"
  let ?ms = "filter ?Q (init_enabledAiModels d)"
  from n have "map item_id (node_children n) = map model_id (dedup_first model_id ?ms)"
    by (auto simp: enabledChatModelList_of_spec enabledChatModelTree_spec_def comp_def)
  then have "item_id ` set (node_children n) = model_id ` set (dedup_first model_id ?ms)"
    by (metis set_map)
  also have "\<dots> = model_id ` set ?ms"
    by (rule keys_dedup_first)
  finally show ?thesis by simp
qed

section \<open>The loading list\<close>

text \<open>
  C9. \<^verbatim>\<open>internal_toggleAiProviderLoading(id, false)\<close> removes every occurrence of
  \<open>id\<close> from \<^verbatim>\<open>aiProviderLoadingIds\<close> and keeps the other identifiers, in their
  order; \<^verbatim>\<open>internal_toggleAiProviderLoading(id, true)\<close> appends \<open>id\<close> at the end
  also when it is there already, so the list can hold an identifier twice.
\<close>

theorem internal_toggleAiProviderLoading_list:
  fixes c :: "'v ctx"
  shows "pid \<notin> set (aiProviderLoadingIds (store (internal_toggleAiProviderLoading pid False c)))
    \<and> filter (\<lambda>i. i \<noteq> pid) (aiProviderLoadingIds (store (internal_toggleAiProviderLoading pid False c)))
        = filter (\<lambda>i. i \<noteq> pid) (aiProviderLoadingIds (store c))
    \<and> aiProviderLoadingIds (store (internal_toggleAiProviderLoading pid False c))
        = filter (\<lambda>i. i \<noteq> pid) (aiProviderLoadingIds (store c))
    \<and> aiProviderLoadingIds (store (internal_toggleAiProviderLoading pid True c))
        = aiProviderLoadingIds (store c) @ [pid]
    \<and> count_list (aiProviderLoadingIds (store (internal_toggleAiProviderLoading pid True c))) pid
        = Suc (count_list (aiProviderLoadingIds (store c)) pid)
    \<and> aiProviderLoadingIds (store (internal_toggleAiProviderLoading pid True
          (internal_toggleAiProviderLoading pid True c)))
        = aiProviderLoadingIds (store c) @ [pid, pid]
    \<and> (store (internal_toggleAiProviderLoading pid loading c))
          \<lparr>aiProviderLoadingIds := aiProviderLoadingIds (store c)\<rparr> = store c"
  by (simp add: internal_toggleAiProviderLoading_def set_store_def)

lemma loading_toggleProviderEnabled:
  "aiProviderLoadingIds (store (snd (toggleProviderEnabled w pid enabled c)))
     = (if fst (toggleProviderEnabled w pid enabled c) = Inr ()
        then filter (\<lambda>i. i \<noteq> pid) (aiProviderLoadingIds (store c))
        else aiProviderLoadingIds (store c) @ [pid])"
  by (simp add: toggleProviderEnabled_def await_then_unfold isl_fst_iff)

lemma loading_updateAiProvider:
  "aiProviderLoadingIds (store (snd (updateAiProvider w pid v c)))
     = (if fst (updateAiProvider w pid v c) = Inr ()
        then filter (\<lambda>i. i \<noteq> pid) (aiProviderLoadingIds (store c))
        else aiProviderLoadingIds (store c) @ [pid])"
  by (simp add: updateAiProvider_def await_then_unfold isl_fst_iff)

lemma loading_updateAiProviderConfig:
  "aiProviderLoadingIds (store (snd (updateAiProviderConfig w pid v c)))
     = (if fst (updateAiProviderConfig w pid v c) = Inr ()
        then filter (\<lambda>i. i \<noteq> pid) (aiProviderLoadingIds (store c))
        else aiProviderLoadingIds (store c) @ [pid])"
  by (simp add: updateAiProviderConfig_def await_then_unfold isl_fst_iff)

text \<open>
  On the path where the promise resolves the identifier is not in the loading list
  afterwards.
\<close>

lemma released_when_resolved:
  "(fst (toggleProviderEnabled w pid enabled c) = Inr () \<longrightarrow>
      pid \<notin> set (aiProviderLoadingIds (store (snd (toggleProviderEnabled w pid enabled c)))))
   \<and> (fst (updateAiProvider w pid v c) = Inr () \<longrightarrow>
      pid \<notin> set (aiProviderLoadingIds (store (snd (updateAiProvider w pid v c)))))
   \<and> (fst (updateAiProviderConfig w pid v c) = Inr () \<longrightarrow>
      pid \<notin> set (aiProviderLoadingIds (store (snd (updateAiProviderConfig w pid v c)))))"
  by (simp add: loading_toggleProviderEnabled loading_updateAiProvider
        loading_updateAiProviderConfig)

text \<open>
  C1. The claim is that, for each of \<^verbatim>\<open>toggleProviderEnabled\<close>,
  \<^verbatim>\<open>updateAiProvider\<close> and \<^verbatim>\<open>updateAiProviderConfig\<close>, the identifier is not in
  \<^verbatim>\<open>aiProviderLoadingIds\<close> once the returned promise has resolved or rejected. The
  code breaks it when an awaited call rejects: each body sets the flag on entry and clears
  it in its last statement, with no \<^verbatim>\<open>try\<close>/\<^verbatim>\<open>finally\<close> around the awaits, so a
  rejection skips the release. At a service that rejects the call, from a store whose
  loading list is \<open>[p9]\<close>, each of the three operations on \<open>p1\<close> rejects, its trace
  ends at the service call and the loading list is \<open>[p9, p1]\<close>.
\<close>

theorem loading_flag_kept_when_rejected:
  "toggleProviderEnabled world_down ''p1'' False ctx1
     = (Inl GatewayError,
        \<lparr>store = store1\<lparr>aiProviderLoadingIds := [''p9'', ''p1'']\<rparr>,
         trace = [StoreSet ''toggleAiProviderLoading'',
                  Gateway (Service_toggleProviderEnabled ''p1'' False)]\<rparr>)
   \<and> ''p1'' \<in> set (aiProviderLoadingIds (store (snd (toggleProviderEnabled world_down ''p1'' False ctx1))))
   \<and> updateAiProvider world_down ''p1'' 5 ctx1
     = (Inl GatewayError,
        \<lparr>store = store1\<lparr>aiProviderLoadingIds := [''p9'', ''p1'']\<rparr>,
         trace = [StoreSet ''toggleAiProviderLoading'',
                  Gateway (Service_updateAiProvider ''p1'' 5)]\<rparr>)
   \<and> ''p1'' \<in> set (aiProviderLoadingIds (store (snd (updateAiProvider world_down ''p1'' 5 ctx1))))
   \<and> updateAiProviderConfig world_down ''p1'' 5 ctx1
     = (Inl GatewayError,
        \<lparr>store = store1\<lparr>aiProviderLoadingIds := [''p9'', ''p1'']\<rparr>,
         trace = [StoreSet ''toggleAiProviderLoading'',
                  Gateway (Service_updateAiProviderConfig ''p1'' 5)]\<rparr>)
   \<and> ''p1'' \<in> set (aiProviderLoadingIds (store (snd (updateAiProviderConfig world_down ''p1'' 5 ctx1))))"
  by (simp add: toggleProviderEnabled_def updateAiProvider_def updateAiProviderConfig_def
        run_defs world_down_def ctx1_def store1_def)

section \<open>Deleting and removing\<close>

text \<open>
  C10. \<^verbatim>\<open>deleteAiProvider\<close> and \<^verbatim>\<open>removeAiProvider\<close> are the same function:
  for every identifier, world and context both settle the same way and leave the same
  store and the same trace of effects, which is the service's delete call followed by the
  refresh of the provider list.
\<close>

theorem deleteAiProvider_eq_removeAiProvider:
  "deleteAiProvider w pid c = removeAiProvider w pid c
   \<and> deleteAiProvider w pid c
       = await_then (call_gateway w (Service_deleteAiProvider pid)) (refreshAiProviderList w) c"
  by (simp add: deleteAiProvider_def removeAiProvider_def)

section \<open>The enabled chat model tree\<close>

text \<open>
  C5, as the code has it. For every snapshot the tree is the tree of the specification
  (\<open>enabledChatModelTree_spec\<close>): it has one node per entry of
  \<^verbatim>\<open>enabledAiProviders\<close>, in the snapshot's order, so exactly one node per
  identifier when the providers' identifiers are pairwise distinct. No two children of a
  node share an identifier; the identifiers of the children are those of the enabled
  models with the node's provider identifier and type \<open>chat\<close>; and each child is the
  projection of the first such model with its identifier, the display name falling back
  to the empty string and the abilities to the empty map. The name of a node falls back
  to the provider's identifier. The snapshot of the scenario yields the single node of
  the scenario.
\<close>

theorem enabledChatModelList_of_tree:
  "enabledChatModelList_of d = enabledChatModelTree_spec d
   \<and> map node_id (enabledChatModelList_of d) = map provider_id (init_enabledAiProviders d)
   \<and> (distinct (map provider_id (init_enabledAiProviders d)) \<longrightarrow>
        distinct (map node_id (enabledChatModelList_of d)))
   \<and> (\<forall>n \<in> set (enabledChatModelList_of d). distinct (map item_id (node_children n)))
   \<and> (\<forall>n \<in> set (enabledChatModelList_of d).
        item_id ` set (node_children n)
          = model_id ` {m \<in> set (init_enabledAiModels d).
                          model_providerId m = node_id n \<and> model_type m = ''chat''})
   \<and> (\<forall>n \<in> set (enabledChatModelList_of d). \<forall>c \<in> set (node_children n).
        \<exists>m. find (\<lambda>m. (model_providerId m = node_id n \<and> model_type m = ''chat'')
                       \<and> model_id m = item_id c) (init_enabledAiModels d) = Some m
          \<and> item_abilities c = (case model_abilities m of None \<Rightarrow> Map.empty | Some a \<Rightarrow> a)
          \<and> item_contextWindowTokens c = model_contextWindowTokens m
          \<and> item_displayName c = (case model_displayName m of None \<Rightarrow> [] | Some x \<Rightarrow> x))
   \<and> enabledChatModelList_of snapshot1 =
       [\<lparr>node_children =
           [\<lparr>item_abilities = Map.empty, item_contextWindowTokens = None,
             item_displayName = [], item_id = ''m1''\<rparr>],
         node_id = ''p1'', node_name = ''p1''\<rparr>]"
proof (intro conjI ballI impI)
  show "enabledChatModelList_of d = enabledChatModelTree_spec d"
    by (rule enabledChatModelList_of_spec)
  show ids: "map node_id (enabledChatModelList_of d) = map provider_id (init_enabledAiProviders d)"
    by (simp add: enabledChatModelList_of_def comp_def)
  show "distinct (map node_id (enabledChatModelList_of d))"
    if "distinct (map provider_id (init_enabledAiProviders d))"
    using that ids by simp
  show "distinct (map item_id (node_children n))" if "n \<in> set (enabledChatModelList_of d)" for n
    using that by (rule children_distinct)
  show "item_id ` set (node_children n)
          = model_id ` {m \<in> set (init_enabledAiModels d).
                          model_providerId m = node_id n \<and> model_type m = ''chat''}"
    if "n \<in> set (enabledChatModelList_of d)" for n
    using that by (rule children_ids)
  show "\<exists>m. find (\<lambda>m. (model_providerId m = node_id n \<and> model_type m = ''chat'')
                       \<and> model_id m = item_id c) (init_enabledAiModels d) = Some m
          \<and> item_abilities c = (case model_abilities m of None \<Rightarrow> Map.empty | Some a \<Rightarrow> a)
          \<and> item_contextWindowTokens c = model_contextWindowTokens m
          \<and> item_displayName c = (case model_displayName m of None \<Rightarrow> [] | Some x \<Rightarrow> x)"
    if "n \<in> set (enabledChatModelList_of d)" and "c \<in> set (node_children n)" for n c
    using that by (rule children_first_occurrence)
  show "enabledChatModelList_of snapshot1 =
       [\<lparr>node_children =
           [\<lparr>item_abilities = Map.empty, item_contextWindowTokens = None,
             item_displayName = [], item_id = ''m1''\<rparr>],
         node_id = ''p1'', node_name = ''p1''\<rparr>]"
    by (simp add: enabledChatModelList_of_def getModelListByType_def uniqBy_def snapshot1_def)
qed

text \<open>
  The theorem at a snapshot with two providers of distinct identifiers: two nodes, the
  repeated model \<open>m1\<close> once with its first display name, the embedding model and the
  model of the provider \<open>p3\<close> left out, the empty name replaced by the identifier.
\<close>

theorem enabledChatModelList_of_tree_witness:
  "distinct (map provider_id (init_enabledAiProviders snapshot2))
   \<and> distinct (map node_id (enabledChatModelList_of snapshot2))
   \<and> enabledChatModelList_of snapshot2 \<noteq> []
   \<and> enabledChatModelList_of snapshot2 =
       [\<lparr>node_children =
           [\<lparr>item_abilities = [''vision'' \<mapsto> True], item_contextWindowTokens = Some 4096,
             item_displayName = ''M1'', item_id = ''m1''\<rparr>],
         node_id = ''p1'', node_name = ''One''\<rparr>,
        \<lparr>node_children =
           [\<lparr>item_abilities = Map.empty, item_contextWindowTokens = None,
             item_displayName = [], item_id = ''m3''\<rparr>],
         node_id = ''p2'', node_name = ''p2''\<rparr>]"
proof -
  have h: "distinct (map provider_id (init_enabledAiProviders snapshot2))"
    by (simp add: snapshot2_def)
  have v: "enabledChatModelList_of snapshot2 =
       [\<lparr>node_children =
           [\<lparr>item_abilities = [''vision'' \<mapsto> True], item_contextWindowTokens = Some 4096,
             item_displayName = ''M1'', item_id = ''m1''\<rparr>],
         node_id = ''p1'', node_name = ''One''\<rparr>,
        \<lparr>node_children =
           [\<lparr>item_abilities = Map.empty, item_contextWindowTokens = None,
             item_displayName = [], item_id = ''m3''\<rparr>],
         node_id = ''p2'', node_name = ''p2''\<rparr>]"
    by (simp add: enabledChatModelList_of_def getModelListByType_def uniqBy_def snapshot2_def)
  from enabledChatModelList_of_tree [of snapshot2] h
  have "distinct (map node_id (enabledChatModelList_of snapshot2))"
    by blast
  with h v show ?thesis by simp
qed

text \<open>
  C5 as stated fails at a snapshot that lists the provider \<open>p1\<close> twice: the one
  distinct identifier has two nodes.
\<close>

theorem two_nodes_for_one_identifier:
  "set (map provider_id (init_enabledAiProviders snapshot_dup)) = {''p1''}
   \<and> length (filter (\<lambda>n. node_id n = ''p1'') (enabledChatModelList_of snapshot_dup)) = 2"
  by (simp add: enabledChatModelList_of_def snapshot_dup_def)

section \<open>The callback of the runtime state\<close>

text \<open>
  C6. When the fetch of the runtime state resolves with no value, the callback changes
  nothing: the context is the same, and a \<^verbatim>\<open>mutate\<close> of the runtime-state key leaves
  the store as it was. When the value is defined, one call of \<^verbatim>\<open>set\<close> updates the
  four fields \<^verbatim>\<open>aiProviderRuntimeConfig\<close>, \<^verbatim>\<open>enabledAiModels\<close>,
  \<^verbatim>\<open>enabledAiProviders\<close> and \<^verbatim>\<open>enabledChatModelList\<close> together and leaves every
  other field.
\<close>

theorem runtime_state_onSuccess_effect:
  "useFetchAiProviderRuntimeState_onSuccess None c = c
   \<and> (fetchRuntimeState w (trace c) = Data None \<longrightarrow>
        mutate w FetchAiProviderRuntimeState c
          = (Inr (), c\<lparr>trace := trace c @ [Mutate FetchAiProviderRuntimeState]\<rparr>))
   \<and> useFetchAiProviderRuntimeState_onSuccess (Some d) c
       = c\<lparr>store := (store c)
              \<lparr>aiProviderRuntimeConfig := Some (init_runtimeConfig d),
               enabledAiModels := Some (init_enabledAiModels d),
               enabledAiProviders := Some (init_enabledAiProviders d),
               enabledChatModelList := Some (enabledChatModelList_of d)\<rparr>,
            trace := trace c @ [StoreSet ''useInitAiProviderKeyVaults'']\<rparr>
   \<and> activeAiProvider (store (useFetchAiProviderRuntimeState_onSuccess (Some d) c))
       = activeAiProvider (store c)
   \<and> aiProviderDetail (store (useFetchAiProviderRuntimeState_onSuccess (Some d) c))
       = aiProviderDetail (store c)
   \<and> aiProviderList (store (useFetchAiProviderRuntimeState_onSuccess (Some d) c))
       = aiProviderList (store c)
   \<and> aiProviderLoadingIds (store (useFetchAiProviderRuntimeState_onSuccess (Some d) c))
       = aiProviderLoadingIds (store c)
   \<and> initAiProviderList (store (useFetchAiProviderRuntimeState_onSuccess (Some d) c))
       = initAiProviderList (store c)"
  by (simp add: useFetchAiProviderRuntimeState_onSuccess_def set_store_def mutate_def)

text \<open>The theorem at a world whose runtime-state fetch resolves with no value.\<close>

theorem runtime_state_onSuccess_effect_witness:
  "fetchRuntimeState (world_up\<lparr>fetchRuntimeState := \<lambda>t. Data None\<rparr>) (trace ctx1) = Data None
   \<and> mutate (world_up\<lparr>fetchRuntimeState := \<lambda>t. Data None\<rparr>) FetchAiProviderRuntimeState ctx1
       = (Inr (), \<lparr>store = store1, trace = [Mutate FetchAiProviderRuntimeState]\<rparr>)"
proof -
  have h: "fetchRuntimeState (world_up\<lparr>fetchRuntimeState := \<lambda>t. Data None\<rparr>) (trace ctx1) = Data None"
    by simp
  from runtime_state_onSuccess_effect [of ctx1 "world_up\<lparr>fetchRuntimeState := \<lambda>t. Data None\<rparr>"] h
  have "mutate (world_up\<lparr>fetchRuntimeState := \<lambda>t. Data None\<rparr>) FetchAiProviderRuntimeState ctx1
          = (Inr (), ctx1\<lparr>trace := trace ctx1 @ [Mutate FetchAiProviderRuntimeState]\<rparr>)"
    by blast
  with h show ?thesis by (simp add: ctx1_def)
qed

section \<open>Creating a provider\<close>

text \<open>
  C8. For every parameter record, \<^verbatim>\<open>createNewAiProvider\<close> makes one call of the
  service, first of all its effects: \<^verbatim>\<open>createAiProvider\<close> with the parameters whose
  source is \<open>Custom\<close>, whatever source the caller gave, and whose other fields are the
  caller's.
\<close>

theorem createNewAiProvider_source:
  "gateway_calls (trace (snd (createNewAiProvider w params c)))
     = gateway_calls (trace c) @ [Service_createAiProvider (params\<lparr>cp_source := Custom\<rparr>)]
   \<and> (\<exists>es. trace (snd (createNewAiProvider w params c))
          = trace c @ Gateway (Service_createAiProvider (params\<lparr>cp_source := Custom\<rparr>)) # es)
   \<and> cp_source (params\<lparr>cp_source := Custom\<rparr>) = Custom
   \<and> cp_id (params\<lparr>cp_source := Custom\<rparr>) = cp_id params
   \<and> cp_fields (params\<lparr>cp_source := Custom\<rparr>) = cp_fields params"
  using trace_refreshAiProviderList_grows
    [of w "c\<lparr>trace := trace c @ [Gateway (Service_createAiProvider (params\<lparr>cp_source := Custom\<rparr>))]\<rparr>"]
  by (auto simp add: createNewAiProvider_def await_then_unfold)

section \<open>The cascade from the list to the runtime state\<close>

text \<open>
  C4, as the code has it. \<^verbatim>\<open>refreshAiProviderList\<close> awaits the invalidation of the
  provider list and then invalidates the runtime state. When the list invalidation does
  not reject, it resolves, the refresh is the runtime-state refresh run from the context
  the list invalidation left, and its effects are the list key followed by the
  runtime-state key. When the list invalidation rejects, the refresh rejects there and
  its only effect is the list key. So in every mutation that invalidates the list
  (create, delete, remove, sort, toggle, update), whenever the service call succeeds and
  the list invalidation does not reject, the list key is directly followed by the
  runtime-state key, on every later path; a resolved toggle and a resolved update have
  exactly the effects listed.
\<close>

theorem refreshAiProviderList_cascade_when_list_resolves:
  "(fetchList w (trace c) \<noteq> Reject \<longrightarrow>
      fst (mutate w FetchAiProviderList c) = Inr ()
      \<and> refreshAiProviderList w c
        = refreshAiProviderRuntimeState w (snd (mutate w FetchAiProviderList c))
      \<and> external (trace (snd (refreshAiProviderList w c)))
        = external (trace c) @ [Mutate FetchAiProviderList, Mutate FetchAiProviderRuntimeState])
   \<and> (fetchList w (trace c) = Reject \<longrightarrow>
      refreshAiProviderList w c
        = (Inl RevalidateError, c\<lparr>trace := trace c @ [Mutate FetchAiProviderList]\<rparr>))
   \<and> (gateway w (trace c) (Service_createAiProvider (params\<lparr>cp_source := Custom\<rparr>))
       \<and> fetchList w (trace c @ [Gateway (Service_createAiProvider (params\<lparr>cp_source := Custom\<rparr>))])
            \<noteq> Reject \<longrightarrow>
        external (trace (snd (createNewAiProvider w params c)))
          = external (trace c) @ [Gateway (Service_createAiProvider (params\<lparr>cp_source := Custom\<rparr>)),
               Mutate FetchAiProviderList, Mutate FetchAiProviderRuntimeState])
   \<and> (gateway w (trace c) (Service_deleteAiProvider pid)
       \<and> fetchList w (trace c @ [Gateway (Service_deleteAiProvider pid)]) \<noteq> Reject \<longrightarrow>
        external (trace (snd (deleteAiProvider w pid c)))
          = external (trace c) @ [Gateway (Service_deleteAiProvider pid),
               Mutate FetchAiProviderList, Mutate FetchAiProviderRuntimeState]
        \<and> external (trace (snd (removeAiProvider w pid c)))
          = external (trace c) @ [Gateway (Service_deleteAiProvider pid),
               Mutate FetchAiProviderList, Mutate FetchAiProviderRuntimeState])
   \<and> (gateway w (trace c) (Service_updateAiProviderOrder items)
       \<and> fetchList w (trace c @ [Gateway (Service_updateAiProviderOrder items)]) \<noteq> Reject \<longrightarrow>
        external (trace (snd (updateAiProviderSort w items c)))
          = external (trace c) @ [Gateway (Service_updateAiProviderOrder items),
               Mutate FetchAiProviderList, Mutate FetchAiProviderRuntimeState])
   \<and> (gateway w (trace c @ [StoreSet ''toggleAiProviderLoading''])
          (Service_toggleProviderEnabled pid enabled)
       \<and> fetchList w (trace c @ [StoreSet ''toggleAiProviderLoading'',
            Gateway (Service_toggleProviderEnabled pid enabled)]) \<noteq> Reject \<longrightarrow>
        (\<exists>es. external (trace (snd (toggleProviderEnabled w pid enabled c)))
           = external (trace c) @ Gateway (Service_toggleProviderEnabled pid enabled)
               # Mutate FetchAiProviderList # Mutate FetchAiProviderRuntimeState # es))
   \<and> (gateway w (trace c @ [StoreSet ''toggleAiProviderLoading''])
          (Service_updateAiProvider pid v)
       \<and> fetchList w (trace c @ [StoreSet ''toggleAiProviderLoading'',
            Gateway (Service_updateAiProvider pid v)]) \<noteq> Reject \<longrightarrow>
        (\<exists>es. external (trace (snd (updateAiProvider w pid v c)))
           = external (trace c) @ Gateway (Service_updateAiProvider pid v)
               # Mutate FetchAiProviderList # Mutate FetchAiProviderRuntimeState # es))
   \<and> (fst (toggleProviderEnabled w pid enabled c) = Inr () \<longrightarrow>
        external (trace (snd (toggleProviderEnabled w pid enabled c)))
          = external (trace c) @ [Gateway (Service_toggleProviderEnabled pid enabled),
               Mutate FetchAiProviderList, Mutate FetchAiProviderRuntimeState])
   \<and> (fst (updateAiProvider w pid v c) = Inr () \<longrightarrow>
        external (trace (snd (updateAiProvider w pid v c)))
          = external (trace c) @ [Gateway (Service_updateAiProvider pid v),
               Mutate FetchAiProviderList, Mutate FetchAiProviderRuntimeState,
               Mutate (FetchAiProviderItem (activeAiProvider (store c))),
               Mutate FetchAiProviderRuntimeState])"
proof (intro conjI impI; (elim conjE)?)
  show "fst (mutate w FetchAiProviderList c) = Inr ()" if "fetchList w (trace c) \<noteq> Reject"
    using that by (simp add: fst_mutate_list)
  show "refreshAiProviderList w c
        = refreshAiProviderRuntimeState w (snd (mutate w FetchAiProviderList c))"
    if "fetchList w (trace c) \<noteq> Reject"
    using that by (simp add: refreshAiProviderList_def await_then_unfold isl_fst_iff fst_mutate_list)
  show "external (trace (snd (refreshAiProviderList w c)))
        = external (trace c) @ [Mutate FetchAiProviderList, Mutate FetchAiProviderRuntimeState]"
    if "fetchList w (trace c) \<noteq> Reject"
    using that by (rule external_list_resolved)
  show "refreshAiProviderList w c
        = (Inl RevalidateError, c\<lparr>trace := trace c @ [Mutate FetchAiProviderList]\<rparr>)"
    if "fetchList w (trace c) = Reject"
    using that by (rule refreshAiProviderList_rejected)
  show "external (trace (snd (createNewAiProvider w params c)))
          = external (trace c) @ [Gateway (Service_createAiProvider (params\<lparr>cp_source := Custom\<rparr>)),
               Mutate FetchAiProviderList, Mutate FetchAiProviderRuntimeState]"
    if "gateway w (trace c) (Service_createAiProvider (params\<lparr>cp_source := Custom\<rparr>))"
      and "fetchList w (trace c @ [Gateway (Service_createAiProvider (params\<lparr>cp_source := Custom\<rparr>))])
            \<noteq> Reject"
    unfolding createNewAiProvider_def using that by (rule cascade_collection)
  show "external (trace (snd (deleteAiProvider w pid c)))
          = external (trace c) @ [Gateway (Service_deleteAiProvider pid),
               Mutate FetchAiProviderList, Mutate FetchAiProviderRuntimeState]"
    if "gateway w (trace c) (Service_deleteAiProvider pid)"
      and "fetchList w (trace c @ [Gateway (Service_deleteAiProvider pid)]) \<noteq> Reject"
    unfolding deleteAiProvider_def using that by (rule cascade_collection)
  show "external (trace (snd (removeAiProvider w pid c)))
          = external (trace c) @ [Gateway (Service_deleteAiProvider pid),
               Mutate FetchAiProviderList, Mutate FetchAiProviderRuntimeState]"
    if "gateway w (trace c) (Service_deleteAiProvider pid)"
      and "fetchList w (trace c @ [Gateway (Service_deleteAiProvider pid)]) \<noteq> Reject"
    unfolding removeAiProvider_def using that by (rule cascade_collection)
  show "external (trace (snd (updateAiProviderSort w items c)))
          = external (trace c) @ [Gateway (Service_updateAiProviderOrder items),
               Mutate FetchAiProviderList, Mutate FetchAiProviderRuntimeState]"
    if "gateway w (trace c) (Service_updateAiProviderOrder items)"
      and "fetchList w (trace c @ [Gateway (Service_updateAiProviderOrder items)]) \<noteq> Reject"
    unfolding updateAiProviderSort_def using that by (rule cascade_collection)
  show "\<exists>es. external (trace (snd (toggleProviderEnabled w pid enabled c)))
           = external (trace c) @ Gateway (Service_toggleProviderEnabled pid enabled)
               # Mutate FetchAiProviderList # Mutate FetchAiProviderRuntimeState # es"
    if "gateway w (trace c @ [StoreSet ''toggleAiProviderLoading''])
          (Service_toggleProviderEnabled pid enabled)"
      and "fetchList w (trace c @ [StoreSet ''toggleAiProviderLoading'',
            Gateway (Service_toggleProviderEnabled pid enabled)]) \<noteq> Reject"
    unfolding toggleProviderEnabled_def
    using that by (rule cascade_per_id) simp
  show "\<exists>es. external (trace (snd (updateAiProvider w pid v c)))
           = external (trace c) @ Gateway (Service_updateAiProvider pid v)
               # Mutate FetchAiProviderList # Mutate FetchAiProviderRuntimeState # es"
    if "gateway w (trace c @ [StoreSet ''toggleAiProviderLoading''])
          (Service_updateAiProvider pid v)"
      and "fetchList w (trace c @ [StoreSet ''toggleAiProviderLoading'',
            Gateway (Service_updateAiProvider pid v)]) \<noteq> Reject"
    unfolding updateAiProvider_def
    using that by (rule cascade_per_id) (rule external_detail_then_release_grows)
  show "external (trace (snd (toggleProviderEnabled w pid enabled c)))
          = external (trace c) @ [Gateway (Service_toggleProviderEnabled pid enabled),
               Mutate FetchAiProviderList, Mutate FetchAiProviderRuntimeState]"
    if "fst (toggleProviderEnabled w pid enabled c) = Inr ()"
    using that by (rule external_toggle_resolved)
  show "external (trace (snd (updateAiProvider w pid v c)))
          = external (trace c) @ [Gateway (Service_updateAiProvider pid v),
               Mutate FetchAiProviderList, Mutate FetchAiProviderRuntimeState,
               Mutate (FetchAiProviderItem (activeAiProvider (store c))),
               Mutate FetchAiProviderRuntimeState]"
    if "fst (updateAiProvider w pid v c) = Inr ()"
    using that by (rule external_update_resolved)
qed

text \<open>
  The theorem at a world where every call resolves, and its rejecting case at a world
  whose list invalidation rejects.
\<close>

theorem refreshAiProviderList_cascade_when_list_resolves_witness:
  "fetchList world_up (trace ctx1) \<noteq> Reject
   \<and> external (trace (snd (refreshAiProviderList world_up ctx1)))
       = [Mutate FetchAiProviderList, Mutate FetchAiProviderRuntimeState]
   \<and> gateway world_up (trace ctx1) (Service_deleteAiProvider ''p1'')
   \<and> external (trace (snd (deleteAiProvider world_up ''p1'' ctx1)))
       = [Gateway (Service_deleteAiProvider ''p1''),
          Mutate FetchAiProviderList, Mutate FetchAiProviderRuntimeState]
   \<and> gateway world_up (trace ctx1 @ [StoreSet ''toggleAiProviderLoading''])
        (Service_toggleProviderEnabled ''p1'' False)
   \<and> fst (toggleProviderEnabled world_up ''p1'' False ctx1) = Inr ()
   \<and> external (trace (snd (toggleProviderEnabled world_up ''p1'' False ctx1)))
       = [Gateway (Service_toggleProviderEnabled ''p1'' False),
          Mutate FetchAiProviderList, Mutate FetchAiProviderRuntimeState]
   \<and> fst (updateAiProvider world_up ''p1'' 5 ctx1) = Inr ()
   \<and> external (trace (snd (updateAiProvider world_up ''p1'' 5 ctx1)))
       = [Gateway (Service_updateAiProvider ''p1'' 5),
          Mutate FetchAiProviderList, Mutate FetchAiProviderRuntimeState,
          Mutate (FetchAiProviderItem (Some ''p2'')), Mutate FetchAiProviderRuntimeState]
   \<and> fetchList world_list_rejects (trace ctx1) = Reject
   \<and> refreshAiProviderList world_list_rejects ctx1
       = (Inl RevalidateError, \<lparr>store = store1, trace = [Mutate FetchAiProviderList]\<rparr>)"
proof -
  have g: "\<And>t g. gateway world_up t g" "\<And>t. fetchList world_up t \<noteq> Reject"
    by (simp_all add: world_up_def)
  have r: "fst (toggleProviderEnabled world_up ''p1'' False ctx1) = Inr ()"
    "fst (updateAiProvider world_up ''p1'' 5 ctx1) = Inr ()"
    by (simp_all add: toggleProviderEnabled_def updateAiProvider_def run_defs world_up_def
          ctx1_def store1_def)
  have t: "external (trace ctx1) = []" "activeAiProvider (store ctx1) = Some ''p2''"
    by (simp_all add: ctx1_def store1_def)
  have l: "fetchList world_list_rejects (trace ctx1) = Reject"
    by (simp add: world_list_rejects_def)
  have up: "external (trace (snd (refreshAiProviderList world_up ctx1)))
       = [Mutate FetchAiProviderList, Mutate FetchAiProviderRuntimeState]
     \<and> external (trace (snd (deleteAiProvider world_up ''p1'' ctx1)))
       = [Gateway (Service_deleteAiProvider ''p1''),
          Mutate FetchAiProviderList, Mutate FetchAiProviderRuntimeState]
     \<and> external (trace (snd (toggleProviderEnabled world_up ''p1'' False ctx1)))
       = [Gateway (Service_toggleProviderEnabled ''p1'' False),
          Mutate FetchAiProviderList, Mutate FetchAiProviderRuntimeState]
     \<and> external (trace (snd (updateAiProvider world_up ''p1'' 5 ctx1)))
       = [Gateway (Service_updateAiProvider ''p1'' 5),
          Mutate FetchAiProviderList, Mutate FetchAiProviderRuntimeState,
          Mutate (FetchAiProviderItem (Some ''p2'')), Mutate FetchAiProviderRuntimeState]"
    using g r t
      refreshAiProviderList_cascade_when_list_resolves
        [where w = world_up and c = ctx1 and pid = "''p1''" and enabled = False and v = 5]
    by simp
  have down: "refreshAiProviderList world_list_rejects ctx1
       = (Inl RevalidateError, \<lparr>store = store1, trace = [Mutate FetchAiProviderList]\<rparr>)"
    using l
      refreshAiProviderList_cascade_when_list_resolves
        [where w = world_list_rejects and c = ctx1]
    by (simp add: ctx1_def)
  show ?thesis
    using g r l up down by simp
qed

text \<open>
  C4 as stated fails when the list invalidation rejects: \<^verbatim>\<open>refreshAiProviderList\<close>
  has run and invalidated the list key, and the runtime-state key is not invalidated; the
  same in \<^verbatim>\<open>toggleProviderEnabled\<close>.
\<close>

theorem list_rejected_runtime_state_not_invalidated:
  "refreshAiProviderList world_list_rejects ctx1
     = (Inl RevalidateError, \<lparr>store = store1, trace = [Mutate FetchAiProviderList]\<rparr>)
   \<and> Mutate FetchAiProviderRuntimeState
       \<notin> set (trace (snd (refreshAiProviderList world_list_rejects ctx1)))
   \<and> toggleProviderEnabled world_list_rejects ''p1'' False ctx1
     = (Inl RevalidateError,
        \<lparr>store = store1\<lparr>aiProviderLoadingIds := [''p9'', ''p1'']\<rparr>,
         trace = [StoreSet ''toggleAiProviderLoading'',
                  Gateway (Service_toggleProviderEnabled ''p1'' False),
                  Mutate FetchAiProviderList]\<rparr>)
   \<and> Mutate FetchAiProviderRuntimeState
       \<notin> set (trace (snd (toggleProviderEnabled world_list_rejects ''p1'' False ctx1)))"
  by (simp add: toggleProviderEnabled_def run_defs world_list_rejects_def ctx1_def store1_def)

section \<open>What a mutation invalidates after the service call\<close>

text \<open>
  C2, as the code has it. For create, delete, remove, update-sort-order, toggle-enabled
  and update-fields: when the service call succeeds, the next effect is the invalidation
  of the provider list. \<^verbatim>\<open>updateAiProviderConfig\<close> never invalidates the provider
  list: after a successful service call it invalidates the detail entry of the active
  provider, and when it resolves its effects are the service call, that detail key and
  the runtime-state key.
\<close>

theorem list_invalidated_after_gateway_success:
  "(gateway w (trace c) (Service_createAiProvider (params\<lparr>cp_source := Custom\<rparr>)) \<longrightarrow>
      (\<exists>es. external (trace (snd (createNewAiProvider w params c)))
         = external (trace c) @ Gateway (Service_createAiProvider (params\<lparr>cp_source := Custom\<rparr>))
             # Mutate FetchAiProviderList # es))
   \<and> (gateway w (trace c) (Service_deleteAiProvider pid) \<longrightarrow>
      (\<exists>es. external (trace (snd (deleteAiProvider w pid c)))
         = external (trace c) @ Gateway (Service_deleteAiProvider pid)
             # Mutate FetchAiProviderList # es)
      \<and> (\<exists>es. external (trace (snd (removeAiProvider w pid c)))
         = external (trace c) @ Gateway (Service_deleteAiProvider pid)
             # Mutate FetchAiProviderList # es))
   \<and> (gateway w (trace c) (Service_updateAiProviderOrder items) \<longrightarrow>
      (\<exists>es. external (trace (snd (updateAiProviderSort w items c)))
         = external (trace c) @ Gateway (Service_updateAiProviderOrder items)
             # Mutate FetchAiProviderList # es))
   \<and> (gateway w (trace c @ [StoreSet ''toggleAiProviderLoading''])
          (Service_toggleProviderEnabled pid enabled) \<longrightarrow>
      (\<exists>es. external (trace (snd (toggleProviderEnabled w pid enabled c)))
         = external (trace c) @ Gateway (Service_toggleProviderEnabled pid enabled)
             # Mutate FetchAiProviderList # es))
   \<and> (gateway w (trace c @ [StoreSet ''toggleAiProviderLoading''])
          (Service_updateAiProvider pid v) \<longrightarrow>
      (\<exists>es. external (trace (snd (updateAiProvider w pid v c)))
         = external (trace c) @ Gateway (Service_updateAiProvider pid v)
             # Mutate FetchAiProviderList # es))
   \<and> (\<exists>es. external (trace (snd (updateAiProviderConfig w pid v c)))
         = external (trace c) @ Gateway (Service_updateAiProviderConfig pid v) # es
       \<and> Mutate FetchAiProviderList \<notin> set es
       \<and> (gateway w (trace c @ [StoreSet ''toggleAiProviderLoading''])
             (Service_updateAiProviderConfig pid v) \<longrightarrow>
           (\<exists>es'. es = Mutate (FetchAiProviderItem (activeAiProvider (store c))) # es'))
       \<and> (fst (updateAiProviderConfig w pid v c) = Inr () \<longrightarrow>
           es = [Mutate (FetchAiProviderItem (activeAiProvider (store c))),
                 Mutate FetchAiProviderRuntimeState]))"
proof -
  have collection:
    "gateway w (trace c) (Service_createAiProvider (params\<lparr>cp_source := Custom\<rparr>)) \<longrightarrow>
      (\<exists>es. external (trace (snd (createNewAiProvider w params c)))
         = external (trace c) @ Gateway (Service_createAiProvider (params\<lparr>cp_source := Custom\<rparr>))
             # Mutate FetchAiProviderList # es)"
    "gateway w (trace c) (Service_deleteAiProvider pid) \<longrightarrow>
      (\<exists>es. external (trace (snd (deleteAiProvider w pid c)))
         = external (trace c) @ Gateway (Service_deleteAiProvider pid)
             # Mutate FetchAiProviderList # es)
      \<and> (\<exists>es. external (trace (snd (removeAiProvider w pid c)))
         = external (trace c) @ Gateway (Service_deleteAiProvider pid)
             # Mutate FetchAiProviderList # es)"
    "gateway w (trace c) (Service_updateAiProviderOrder items) \<longrightarrow>
      (\<exists>es. external (trace (snd (updateAiProviderSort w items c)))
         = external (trace c) @ Gateway (Service_updateAiProviderOrder items)
             # Mutate FetchAiProviderList # es)"
    unfolding createNewAiProvider_def deleteAiProvider_def removeAiProvider_def
      updateAiProviderSort_def
    by (blast intro: external_accepted_collection)+
  have toggle:
    "gateway w (trace c @ [StoreSet ''toggleAiProviderLoading''])
          (Service_toggleProviderEnabled pid enabled) \<longrightarrow>
      (\<exists>es. external (trace (snd (toggleProviderEnabled w pid enabled c)))
         = external (trace c) @ Gateway (Service_toggleProviderEnabled pid enabled)
             # Mutate FetchAiProviderList # es)"
    unfolding toggleProviderEnabled_def
    by (intro impI external_accepted_per_id) simp_all
  have update:
    "gateway w (trace c @ [StoreSet ''toggleAiProviderLoading''])
          (Service_updateAiProvider pid v) \<longrightarrow>
      (\<exists>es. external (trace (snd (updateAiProvider w pid v c)))
         = external (trace c) @ Gateway (Service_updateAiProvider pid v)
             # Mutate FetchAiProviderList # es)"
    unfolding updateAiProvider_def
    by (intro impI external_accepted_per_id external_detail_then_release_grows) simp_all
  have config:
    "\<exists>es. external (trace (snd (updateAiProviderConfig w pid v c)))
         = external (trace c) @ Gateway (Service_updateAiProviderConfig pid v) # es
       \<and> Mutate FetchAiProviderList \<notin> set es
       \<and> (gateway w (trace c @ [StoreSet ''toggleAiProviderLoading''])
             (Service_updateAiProviderConfig pid v) \<longrightarrow>
           (\<exists>es'. es = Mutate (FetchAiProviderItem (activeAiProvider (store c))) # es'))
       \<and> (fst (updateAiProviderConfig w pid v c) = Inr () \<longrightarrow>
           es = [Mutate (FetchAiProviderItem (activeAiProvider (store c))),
                 Mutate FetchAiProviderRuntimeState])"
    using resolved_refreshAiProviderDetail [of w
        "(internal_toggleAiProviderLoading pid True c)
           \<lparr>trace := trace c @ [StoreSet ''toggleAiProviderLoading'',
                                 Gateway (Service_updateAiProviderConfig pid v)]\<rparr>"]
    by (auto simp add: updateAiProviderConfig_def await_then_unfold isl_fst_iff
          external_refreshAiProviderDetail)
  show ?thesis
    using collection toggle update config by blast
qed

text \<open>The theorem at a world where every call resolves; the active provider is \<open>p2\<close>.\<close>

theorem list_invalidated_after_gateway_success_witness:
  "gateway world_up (trace ctx1) (Service_createAiProvider (params_empty_id\<lparr>cp_source := Custom\<rparr>))
   \<and> (\<exists>es. external (trace (snd (createNewAiProvider world_up params_empty_id ctx1)))
         = Gateway (Service_createAiProvider (params_empty_id\<lparr>cp_source := Custom\<rparr>))
             # Mutate FetchAiProviderList # es)
   \<and> gateway world_up (trace ctx1) (Service_deleteAiProvider ''p1'')
   \<and> (\<exists>es. external (trace (snd (deleteAiProvider world_up ''p1'' ctx1)))
         = Gateway (Service_deleteAiProvider ''p1'') # Mutate FetchAiProviderList # es)
   \<and> gateway world_up (trace ctx1) (Service_updateAiProviderOrder [3, 4])
   \<and> (\<exists>es. external (trace (snd (updateAiProviderSort world_up [3, 4] ctx1)))
         = Gateway (Service_updateAiProviderOrder [3, 4]) # Mutate FetchAiProviderList # es)
   \<and> gateway world_up (trace ctx1 @ [StoreSet ''toggleAiProviderLoading''])
        (Service_toggleProviderEnabled ''p1'' False)
   \<and> (\<exists>es. external (trace (snd (toggleProviderEnabled world_up ''p1'' False ctx1)))
         = Gateway (Service_toggleProviderEnabled ''p1'' False) # Mutate FetchAiProviderList # es)
   \<and> gateway world_up (trace ctx1 @ [StoreSet ''toggleAiProviderLoading''])
        (Service_updateAiProvider ''p1'' 5)
   \<and> (\<exists>es. external (trace (snd (updateAiProvider world_up ''p1'' 5 ctx1)))
         = Gateway (Service_updateAiProvider ''p1'' 5) # Mutate FetchAiProviderList # es)
   \<and> gateway world_up (trace ctx1 @ [StoreSet ''toggleAiProviderLoading''])
        (Service_updateAiProviderConfig ''p1'' 5)
   \<and> fst (updateAiProviderConfig world_up ''p1'' 5 ctx1) = Inr ()
   \<and> external (trace (snd (updateAiProviderConfig world_up ''p1'' 5 ctx1)))
       = [Gateway (Service_updateAiProviderConfig ''p1'' 5),
          Mutate (FetchAiProviderItem (Some ''p2'')), Mutate FetchAiProviderRuntimeState]"
proof -
  have g: "\<And>t g. gateway world_up t g"
    by (simp add: world_up_def)
  have r: "fst (updateAiProviderConfig world_up ''p1'' 5 ctx1) = Inr ()"
    by (simp add: updateAiProviderConfig_def run_defs world_up_def ctx1_def store1_def)
  have t: "external (trace ctx1) = []" "activeAiProvider (store ctx1) = Some ''p2''"
    by (simp_all add: ctx1_def store1_def)
  from list_invalidated_after_gateway_success
    [where w = world_up and c = ctx1 and params = params_empty_id and pid = "''p1''"
       and items = "[3, 4]" and enabled = False and v = 5]
  show ?thesis
    using g r t by auto
qed

text \<open>
  C2 as stated fails for \<^verbatim>\<open>updateAiProviderConfig\<close>: in the scenario of the
  specification (the identifier \<open>p2\<close> is the active one and the service call succeeds)
  the operation resolves and its trace holds no invalidation of the provider list.
\<close>

theorem updateAiProviderConfig_skips_list:
  "gateway world_up (trace ctx1 @ [StoreSet ''toggleAiProviderLoading''])
     (Service_updateAiProviderConfig ''p2'' 5)
   \<and> activeAiProvider (store ctx1) = Some ''p2''
   \<and> fst (updateAiProviderConfig world_up ''p2'' 5 ctx1) = Inr ()
   \<and> trace (snd (updateAiProviderConfig world_up ''p2'' 5 ctx1))
       = [StoreSet ''toggleAiProviderLoading'',
          Gateway (Service_updateAiProviderConfig ''p2'' 5),
          Mutate (FetchAiProviderItem (Some ''p2'')),
          StoreSet ''useFetchAiProviderItem'',
          Mutate FetchAiProviderRuntimeState,
          StoreSet ''useInitAiProviderKeyVaults'',
          StoreSet ''toggleAiProviderLoading'']
   \<and> Mutate FetchAiProviderList \<notin> set (trace (snd (updateAiProviderConfig world_up ''p2'' 5 ctx1)))"
  by (simp add: updateAiProviderConfig_def run_defs world_up_def ctx1_def store1_def)

section \<open>Identifiers are not validated\<close>




section \<open>The active provider\<close>

text \<open>
  C7. \<^verbatim>\<open>refreshAiProviderDetail\<close> first invalidates the detail entry keyed by
  \<^verbatim>\<open>activeAiProvider\<close> of the store; so do \<^verbatim>\<open>updateAiProvider\<close> and
  \<^verbatim>\<open>updateAiProviderConfig\<close>, whatever identifier they are called with. The active
  identifier is set by the callback of the detail read when the fetch resolves with a
  defined value (to the identifier of that read); the callback on an undefined value,
  the other callbacks and every action of the slice leave it as it was.
\<close>

theorem detail_key_is_active_provider:
  "(\<exists>es. trace (snd (refreshAiProviderDetail w c))
       = trace c @ Mutate (FetchAiProviderItem (activeAiProvider (store c))) # es)
   \<and> (fst (updateAiProvider w pid v c) = Inr () \<longrightarrow>
        external (trace (snd (updateAiProvider w pid v c)))
          = external (trace c) @ [Gateway (Service_updateAiProvider pid v),
               Mutate FetchAiProviderList, Mutate FetchAiProviderRuntimeState,
               Mutate (FetchAiProviderItem (activeAiProvider (store c))),
               Mutate FetchAiProviderRuntimeState])
   \<and> (fst (updateAiProviderConfig w pid v c) = Inr () \<longrightarrow>
        external (trace (snd (updateAiProviderConfig w pid v c)))
          = external (trace c) @ [Gateway (Service_updateAiProviderConfig pid v),
               Mutate (FetchAiProviderItem (activeAiProvider (store c))),
               Mutate FetchAiProviderRuntimeState])
   \<and> useFetchAiProviderItem_onSuccess rid None c = c
   \<and> activeAiProvider (store (useFetchAiProviderItem_onSuccess rid (Some d) c)) = Some rid
   \<and> activeAiProvider (store (useFetchAiProviderList_onSuccess l c)) = activeAiProvider (store c)
   \<and> activeAiProvider (store (useFetchAiProviderRuntimeState_onSuccess r c))
       = activeAiProvider (store c)
   \<and> activeAiProvider (store (internal_toggleAiProviderLoading pid b c))
       = activeAiProvider (store c)
   \<and> activeAiProvider (store (snd (refreshAiProviderDetail w c))) = activeAiProvider (store c)
   \<and> activeAiProvider (store (snd (refreshAiProviderList w c))) = activeAiProvider (store c)
   \<and> activeAiProvider (store (snd (refreshAiProviderRuntimeState w c)))
       = activeAiProvider (store c)
   \<and> activeAiProvider (store (snd (createNewAiProvider w params c))) = activeAiProvider (store c)
   \<and> activeAiProvider (store (snd (deleteAiProvider w pid c))) = activeAiProvider (store c)
   \<and> activeAiProvider (store (snd (removeAiProvider w pid c))) = activeAiProvider (store c)
   \<and> activeAiProvider (store (snd (updateAiProviderSort w items c))) = activeAiProvider (store c)
   \<and> activeAiProvider (store (snd (toggleProviderEnabled w pid enabled c)))
       = activeAiProvider (store c)
   \<and> activeAiProvider (store (snd (updateAiProvider w pid v c))) = activeAiProvider (store c)
   \<and> activeAiProvider (store (snd (updateAiProviderConfig w pid v c)))
       = activeAiProvider (store c)"
  using trace_refreshAiProviderDetail_grows [of w c]
  by (simp add: active_actions external_update_resolved external_updateConfig_resolved
        useFetchAiProviderItem_onSuccess_def set_store_def)

text \<open>
  The theorem for updates of \<open>p1\<close> while \<open>p2\<close> is active: the detail key is that of
  \<open>p2\<close>.
\<close>

theorem detail_key_is_active_provider_witness:
  "activeAiProvider (store ctx1) = Some ''p2''
   \<and> fst (updateAiProvider world_up ''p1'' 5 ctx1) = Inr ()
   \<and> external (trace (snd (updateAiProvider world_up ''p1'' 5 ctx1)))
       = [Gateway (Service_updateAiProvider ''p1'' 5),
          Mutate FetchAiProviderList, Mutate FetchAiProviderRuntimeState,
          Mutate (FetchAiProviderItem (Some ''p2'')), Mutate FetchAiProviderRuntimeState]
   \<and> fst (updateAiProviderConfig world_up ''p1'' 5 ctx1) = Inr ()
   \<and> external (trace (snd (updateAiProviderConfig world_up ''p1'' 5 ctx1)))
       = [Gateway (Service_updateAiProviderConfig ''p1'' 5),
          Mutate (FetchAiProviderItem (Some ''p2'')), Mutate FetchAiProviderRuntimeState]
   \<and> activeAiProvider (store (snd (updateAiProvider world_up ''p1'' 5 ctx1))) = Some ''p2''"
proof -
  have r: "fst (updateAiProvider world_up ''p1'' 5 ctx1) = Inr ()"
    "fst (updateAiProviderConfig world_up ''p1'' 5 ctx1) = Inr ()"
    by (simp_all add: updateAiProvider_def updateAiProviderConfig_def run_defs world_up_def
          ctx1_def store1_def)
  have t: "external (trace ctx1) = []" "activeAiProvider (store ctx1) = Some ''p2''"
    by (simp_all add: ctx1_def store1_def)
  from detail_key_is_active_provider
    [where w = world_up and c = ctx1 and pid = "''p1''" and v = 5]
  show ?thesis
    using r t by simp
qed

end
